theory Spec2Isabelle
  imports Complex_Main "HOL-Library.Multiset"
begin

section \<open>Host environment\<close>

text \<open>
  The simulation reads four things from the browser: \<^verbatim>\<open>Math.random()\<close>,
  \<^verbatim>\<open>Date.now()\<close>, \<^verbatim>\<open>window.innerWidth\<close> and \<^verbatim>\<open>window.innerHeight\<close>.
  They are one record threaded through every function that reads them. The random
  source is the sequence of values the successive calls return and the number of calls
  made so far. JavaScript numbers are modelled by \<^typ>\<open>real\<close> (\<^verbatim>\<open>Math.pow\<close> with a
  positive base is \<open>powr\<close>); integer counters are \<^typ>\<open>int\<close>.
\<close>

record host =
  draws :: "nat \<Rightarrow> real"
  drawn :: nat
  dateNow :: real
  innerWidth :: real
  innerHeight :: real

definition random :: "host \<Rightarrow> real \<times> host" where
  "random h = (draws h (drawn h), h\<lparr>drawn := Suc (drawn h)\<rparr>)"

text \<open>
  Where \<^verbatim>\<open>Math.floor\<close> cuts a product to a particle count, the rounding of the arithmetic
  decides the integer, and the operations are taken as IEEE 754 binary64 performs them: the
  exact result, rounded to the nearest number with a significand of 53 bits, ties to the even
  significand, with the fixed spacing \<open>2 powi (- 1074)\<close> of the subnormal range below
  \<open>2 powi (- 1022)\<close>. \<open>double v\<close> is that rounding of \<open>v\<close>; it is also the value of a
  decimal literal. Overflow to \<^verbatim>\<open>Infinity\<close> is not modelled.
\<close>

definition roundEven :: "real \<Rightarrow> int" where
  "roundEven v =
     (let f = \<lfloor>v\<rfloor>; r = v - of_int f
      in if r < 1 / 2 then f else if 1 / 2 < r then f + 1 else if even f then f else f + 1)"

definition double :: "real \<Rightarrow> real" where
  "double v =
     (if v = 0 then 0
      else let e = max \<lfloor>log 2 \<bar>v\<bar>\<rfloor> (- 1022);
               q = 2 powi (e - 52)
           in of_int (roundEven (v / q)) * q)"

text \<open>\<^verbatim>\<open>a * b\<close> and \<^verbatim>\<open>a / b\<close> on doubles.\<close>

definition dmul :: "real \<Rightarrow> real \<Rightarrow> real" where
  "dmul a b = double (a * b)"

definition ddiv :: "real \<Rightarrow> real \<Rightarrow> real" where
  "ddiv a b = double (a / b)"

section \<open>Bubbles\<close>

record theme =
  hueBase :: real
  shimmer :: bool
  sparkle :: bool
  stars :: bool

record star =
  star_x :: real
  star_y :: real
  star_size :: real
  twinkle :: real

datatype spawn_direction = Bottom | Left | Right

text \<open>
  \<open>bid\<close> is the identity of the JavaScript object (two bubbles with equal fields are
  still two objects); it is not a field of the source and no source function reads it.
\<close>

record bubble =
  bid :: nat
  x :: real
  y :: real
  size_b :: real
  radius :: real
  lifetime :: real
  age :: real
  isAlive :: bool
  vx :: real
  vy :: real
  wobbleOffset :: real
  wobbleSpeed :: real
  spawnMomentumX :: real
  spawnMomentumY :: real
  spawnDirection :: spawn_direction
  opacity :: real
  theme :: "theme option"
  hue :: real
  hueSpeed :: real
  sparkleOffset :: real
  shimmerPhase :: real
  starPositions :: "star list"

section \<open>PhysicsEngine\<close>

record zone =
  zone_x :: real
  zone_y :: real
  zone_radius :: real
  strength :: real
  direction :: real
  pulseSpeed :: real
  phase :: real

record physics =
  width :: real
  height :: real
  gravity :: real
  airResistance :: real
  wobbleStrength :: real
  breezeStrength :: real
  windForce :: "real \<times> real"
  lastWindUpdate :: real
  windUpdateInterval :: real
  targetWind :: "real \<times> real"
  breezeZones :: "zone list"
  simplePhysics :: bool

text \<open>\<^verbatim>\<open>isInSpawnGracePeriod(bubble)\<close>\<close>

definition isInSpawnGracePeriod :: "physics \<Rightarrow> bubble \<Rightarrow> bool" where
  "isInSpawnGracePeriod pe b =
     (let maxGraceTime = 2000; margin = 50 in
      if age b > maxGraceTime then False
      else
        let isOnScreen = (x b > - margin \<and> x b < width pe + margin \<and>
                          y b > - margin \<and> y b < height pe + margin)
        in \<not> isOnScreen)"

definition graceFactor :: "physics \<Rightarrow> bubble \<Rightarrow> real" where
  "graceFactor pe b = (if isInSpawnGracePeriod pe b then 0.1 else 1.0)"

text \<open>\<^verbatim>\<open>applyBuoyancy(bubble, dt, graceFactor)\<close>\<close>

definition applyBuoyancy :: "physics \<Rightarrow> real \<Rightarrow> real \<Rightarrow> bubble \<Rightarrow> bubble" where
  "applyBuoyancy pe dt g b =
     (let buoyancyForce = gravity pe * (1 + size_b b / 100) * g
      in b\<lparr>vy := vy b + buoyancyForce * dt\<rparr>)"

text \<open>\<^verbatim>\<open>applyWobble(bubble, dt, graceFactor)\<close>\<close>

definition applyWobble :: "physics \<Rightarrow> real \<Rightarrow> real \<Rightarrow> bubble \<Rightarrow> bubble" where
  "applyWobble pe dt g b =
     (if simplePhysics pe then b
      else
        let wobbleX = sin (age b * wobbleSpeed b + wobbleOffset b) * wobbleStrength pe * g;
            wobbleY = cos (age b * wobbleSpeed b * 0.7 + wobbleOffset b) * wobbleStrength pe * 0.5 * g;
            b1 = b\<lparr>vx := vx b + wobbleX * 0.003 * dt\<rparr>;
            b2 = b1\<lparr>vy := vy b1 + wobbleY * 0.003 * dt\<rparr>;
            sizeModifier = 0.5 + size_b b2 / 300
        in b2\<lparr>vx := vx b2 + wobbleX * 0.002 * sizeModifier * dt\<rparr>)"

text \<open>\<^verbatim>\<open>getLocalBreeze(x, y)\<close>: the loop body, then the loop and the averaging.\<close>

definition breezeStep :: "real \<Rightarrow> real \<Rightarrow> real \<Rightarrow> (real \<times> real) \<times> real \<Rightarrow> zone \<Rightarrow> (real \<times> real) \<times> real" where
  "breezeStep now px py acc z =
     (let dx = px - zone_x z;
          dy = py - zone_y z;
          distance = sqrt (dx * dx + dy * dy)
      in if distance < zone_radius z then
           let influence = 1 - distance / zone_radius z;
               weight = influence * influence;
               pulse = 1 + sin (now * pulseSpeed z + phase z) * 0.3;
               str = strength z * pulse * weight;
               forceX = cos (direction z) * str;
               forceY = sin (direction z) * str
           in ((fst (fst acc) + forceX * weight, snd (fst acc) + forceY * weight), snd acc + weight)
         else acc)"

definition getLocalBreeze :: "physics \<Rightarrow> host \<Rightarrow> real \<Rightarrow> real \<Rightarrow> real \<times> real" where
  "getLocalBreeze pe h px py =
     (let acc = foldl (breezeStep (dateNow h) px py) ((0, 0), 0) (breezeZones pe);
          totalForce = fst acc;
          totalWeight = snd acc
      in if totalWeight > 0 then (fst totalForce / totalWeight, snd totalForce / totalWeight)
         else totalForce)"

text \<open>\<^verbatim>\<open>applyBreeze(bubble, dt, graceFactor)\<close>\<close>

definition applyBreeze :: "physics \<Rightarrow> host \<Rightarrow> real \<Rightarrow> real \<Rightarrow> bubble \<Rightarrow> bubble" where
  "applyBreeze pe h dt g b =
     (let b1 = b\<lparr>vx := vx b + fst (windForce pe) * 0.005 * dt * g\<rparr>;
          b2 = b1\<lparr>vy := vy b1 + snd (windForce pe) * 0.003 * dt * g\<rparr>;
          localBreeze = getLocalBreeze pe h (x b2) (y b2);
          b3 = b2\<lparr>vx := vx b2 + fst localBreeze * 0.004 * dt * g\<rparr>;
          b4 = b3\<lparr>vy := vy b3 + snd localBreeze * 0.003 * dt * g\<rparr>;
          windResistance = 0.5 + size_b b4 / 300
      in b4\<lparr>vx := vx b4 + fst (windForce pe) * 0.003 * windResistance * dt * g\<rparr>)"

text \<open>\<^verbatim>\<open>applyAirResistance(bubble, dt)\<close>: no grace factor is passed.\<close>

definition applyAirResistance :: "physics \<Rightarrow> real \<Rightarrow> bubble \<Rightarrow> bubble" where
  "applyAirResistance pe dt b =
     (let b1 = b\<lparr>vx := vx b * (airResistance pe powr dt)\<rparr>;
          b2 = b1\<lparr>vy := vy b1 * (airResistance pe powr dt)\<rparr>;
          maxSpeed = 0.8 + size_b b2 / 200;
          speed = sqrt (vx b2 * vx b2 + vy b2 * vy b2)
      in if speed > maxSpeed then
           let scale = maxSpeed / speed;
               b3 = b2\<lparr>vx := vx b2 * scale\<rparr>
           in b3\<lparr>vy := vy b3 * scale\<rparr>
         else b2)"

text \<open>\<^verbatim>\<open>handleBoundaries(bubble)\<close>\<close>

definition handleBoundaries :: "physics \<Rightarrow> bubble \<Rightarrow> bubble" where
  "handleBoundaries pe b =
     (let margin = 50;
          b1 = (if x b < margin then b\<lparr>vx := vx b + (margin - x b) * 0.001\<rparr>
                else if x b > width pe - margin
                     then b\<lparr>vx := vx b - (x b - (width pe - margin)) * 0.001\<rparr>
                else b)
      in if y b1 < margin then b1\<lparr>vy := vy b1 + (margin - y b1) * 0.001\<rparr> else b1)"

text \<open>\<^verbatim>\<open>applySizeEffects(bubble, dt)\<close>: draws a random number for small bubbles only.\<close>

definition applySizeEffects :: "real \<Rightarrow> bubble \<Rightarrow> host \<Rightarrow> bubble \<times> host" where
  "applySizeEffects dt b h =
     (let sizeRatio = size_b b / 150;
          b1 = (if sizeRatio > 1 then b\<lparr>vx := vx b * (0.95 powr dt)\<rparr> else b)
      in if sizeRatio < 0.8 then
           let extraWobble = (0.8 - sizeRatio) * 0.1;
               (r, h1) = random h
           in (b1\<lparr>vx := vx b1 + (r - 0.5) * extraWobble * dt\<rparr>, h1)
         else (b1, h))"

text \<open>\<^verbatim>\<open>generateNewWindPattern()\<close>\<close>

definition generateNewWindPattern :: "physics \<Rightarrow> host \<Rightarrow> physics \<times> host" where
  "generateNewWindPattern pe h =
     (let (r1, h1) = random h;
          windStrength = 0.1 + r1 * 0.2;
          (r2, h2) = random h1;
          windDirection = r2 * pi * 2;
          tx = cos windDirection * windStrength;
          ty = sin windDirection * windStrength * 0.3;
          (r3, h3) = random h2
      in if r3 < 0.1 then (pe\<lparr>targetWind := (tx * 1.5, ty * 1.2)\<rparr>, h3)
         else (pe\<lparr>targetWind := (tx, ty)\<rparr>, h3))"

text \<open>\<^verbatim>\<open>generateBreezeZones()\<close>: seven draws for each zone, after one for the count.\<close>

fun zoneLoop :: "nat \<Rightarrow> real \<Rightarrow> real \<Rightarrow> host \<Rightarrow> zone list \<times> host" where
  "zoneLoop 0 w hgt h = ([], h)"
| "zoneLoop (Suc n) w hgt h =
     (let (r1, h1) = random h;
          (r2, h2) = random h1;
          (r3, h3) = random h2;
          (r4, h4) = random h3;
          (r5, h5) = random h4;
          (r6, h6) = random h5;
          (r7, h7) = random h6;
          (rest, h8) = zoneLoop n w hgt h7
      in (\<lparr>zone_x = r1 * w, zone_y = r2 * hgt, zone_radius = 150 + r3 * 250,
           strength = 0.05 + r4 * 0.15, direction = r5 * pi * 2,
           pulseSpeed = 0.0005 + r6 * 0.001, phase = r7 * pi * 2\<rparr> # rest, h8))"

definition generateBreezeZones :: "real \<Rightarrow> real \<Rightarrow> host \<Rightarrow> zone list \<times> host" where
  "generateBreezeZones w hgt h =
     (let (r, h1) = random h;
          zoneCount = 4 + \<lfloor>r * 3\<rfloor>
      in zoneLoop (nat zoneCount) w hgt h1)"

text \<open>The constructor \<^verbatim>\<open>new PhysicsEngine(width, height)\<close>.\<close>

definition new_PhysicsEngine :: "real \<Rightarrow> real \<Rightarrow> host \<Rightarrow> physics \<times> host" where
  "new_PhysicsEngine w hgt h =
     (let (zs, h1) = generateBreezeZones w hgt h
      in (\<lparr>width = w, height = hgt, gravity = -0.05, airResistance = 0.995,
           wobbleStrength = 0.1, breezeStrength = 0.2, windForce = (0, 0),
           lastWindUpdate = 0, windUpdateInterval = 3000, targetWind = (0, 0),
           breezeZones = zs, simplePhysics = False\<rparr>, h1))"

text \<open>\<^verbatim>\<open>enableSimplePhysics(enabled)\<close>\<close>

definition enableSimplePhysics :: "bool \<Rightarrow> physics \<Rightarrow> physics" where
  "enableSimplePhysics enabled pe =
     (let pe1 = pe\<lparr>simplePhysics := enabled\<rparr>
      in if enabled
         then pe1\<lparr>breezeZones := take 2 (breezeZones pe1), windUpdateInterval := 5000\<rparr>
         else pe1)"

text \<open>\<^verbatim>\<open>updateEnvironmentalForces(deltaTime)\<close>\<close>

definition updateEnvironmentalForces :: "physics \<Rightarrow> real \<Rightarrow> host \<Rightarrow> physics \<times> host" where
  "updateEnvironmentalForces pe deltaTime h =
     (let pe1 = pe\<lparr>lastWindUpdate := lastWindUpdate pe + deltaTime\<rparr>;
          (pe2, h2) = (if lastWindUpdate pe1 \<ge> windUpdateInterval pe1
                       then (let (pe', h') = generateNewWindPattern pe1 h
                             in (pe'\<lparr>lastWindUpdate := 0\<rparr>, h'))
                       else (pe1, h));
          lerpSpeed = 0.02;
          wx = fst (windForce pe2) + (fst (targetWind pe2) - fst (windForce pe2)) * lerpSpeed;
          wy = snd (windForce pe2) + (snd (targetWind pe2) - snd (windForce pe2)) * lerpSpeed
      in (pe2\<lparr>windForce := (wx, wy)\<rparr>, h2))"

text \<open>
  \<^verbatim>\<open>updateBubble(bubble, deltaTime)\<close>. The method has two parameters: a third
  argument of a call is dropped by JavaScript.
\<close>

definition integratePosition :: "real \<Rightarrow> bubble \<Rightarrow> bubble" where
  "integratePosition dt b =
     (let b1 = b\<lparr>x := x b + vx b * dt\<rparr> in b1\<lparr>y := y b1 + vy b1 * dt\<rparr>)"

definition updateBubble :: "physics \<Rightarrow> bubble \<Rightarrow> real \<Rightarrow> host \<Rightarrow> physics \<times> bubble \<times> host" where
  "updateBubble pe b deltaTime h =
     (let dt = min (deltaTime / 16.67) 2;
          (pe1, h1) = updateEnvironmentalForces pe deltaTime h;
          g = graceFactor pe1 b;
          b1 = applyBuoyancy pe1 dt g b;
          b2 = applyWobble pe1 dt g b1;
          b3 = applyBreeze pe1 h1 dt g b2;
          b4 = applyAirResistance pe1 dt b3;
          b5 = integratePosition dt b4;
          b6 = handleBoundaries pe1 b5;
          (b7, h2) = applySizeEffects dt b6 h1
      in (pe1, b7, h2))"

section \<open>Bubble\<close>

text \<open>
  \<^verbatim>\<open>Bubble.update(deltaTime, physicsEngine, speedMultiplier)\<close>, block by block: the
  position update (with the engine, or the fallback), the visual properties, the
  theme-specific animations, the late fade and the bounds check.
\<close>

definition fallbackPhysics :: "real \<Rightarrow> bubble \<Rightarrow> bubble" where
  "fallbackPhysics speedMultiplier b =
     (let c1 = b\<lparr>x := x b + vx b * speedMultiplier\<rparr>;
          c2 = c1\<lparr>y := y c1 + vy c1 * speedMultiplier\<rparr>
      in c2\<lparr>x := x c2 + sin (age c2 * wobbleSpeed c2 + wobbleOffset c2) * 0.2\<rparr>)"

definition updatePosition ::
  "real \<Rightarrow> physics option \<Rightarrow> real \<Rightarrow> bubble \<Rightarrow> host \<Rightarrow> bubble \<times> physics option \<times> host" where
  "updatePosition deltaTime physicsEngine speedMultiplier b h =
     (case physicsEngine of
        Some pe \<Rightarrow> (let (pe', b', h') = updateBubble pe b deltaTime h in (b', Some pe', h'))
      | None \<Rightarrow> (fallbackPhysics speedMultiplier b, None, h))"

definition updateHue :: "bubble \<Rightarrow> bubble" where
  "updateHue b =
     (let b1 = b\<lparr>hue := hue b + hueSpeed b\<rparr>
      in if hue b1 > 360 then b1\<lparr>hue := hue b1 - 360\<rparr> else b1)"

definition updateThemeAnimations :: "bubble \<Rightarrow> bubble" where
  "updateThemeAnimations b =
     (case theme b of
        None \<Rightarrow> b
      | Some t \<Rightarrow>
          (let b1 = (if shimmer t then b\<lparr>shimmerPhase := shimmerPhase b + 0.05\<rparr> else b);
               b2 = (if sparkle t then b1\<lparr>sparkleOffset := sparkleOffset b1 + 0.08\<rparr> else b1)
           in if stars t
              then b2\<lparr>starPositions :=
                        map (\<lambda>s. s\<lparr>twinkle := twinkle s + 0.06\<rparr>) (starPositions b2)\<rparr>
              else b2))"

definition fadeOut :: "bubble \<Rightarrow> bubble" where
  "fadeOut b =
     (let lifetimeRatio = age b / lifetime b
      in if lifetimeRatio > 0.92
         then b\<lparr>opacity := 1 - (lifetimeRatio - 0.92) / 0.08\<rparr> else b)"

definition checkBounds :: "host \<Rightarrow> bubble \<Rightarrow> bubble" where
  "checkBounds h b =
     (if x b < -100 \<or> x b > innerWidth h + 100 \<or> y b < -100 \<or> y b > innerHeight h + 100
      then b\<lparr>isAlive := False\<rparr> else b)"

definition bubble_update ::
  "real \<Rightarrow> physics option \<Rightarrow> real \<Rightarrow> bubble \<Rightarrow> host \<Rightarrow> bubble \<times> physics option \<times> host" where
  "bubble_update deltaTime physicsEngine speedMultiplier b h =
     (if \<not> isAlive b then (b, physicsEngine, h)
      else
        let b1 = b\<lparr>age := age b + deltaTime\<rparr> in
        if age b1 \<ge> lifetime b1 then (b1\<lparr>isAlive := False\<rparr>, physicsEngine, h)
        else
          let (b2, pe2, h2) = updatePosition deltaTime physicsEngine speedMultiplier b1 h;
              b3 = updateHue b2;
              b4 = updateThemeAnimations b3;
              b5 = fadeOut b4
          in (checkBounds h2 b5, pe2, h2))"


text \<open>\<^verbatim>\<open>generateStarPositions()\<close>: four draws for each star, after one for the count.\<close>

fun starLoop :: "nat \<Rightarrow> real \<Rightarrow> host \<Rightarrow> star list \<times> host" where
  "starLoop 0 rad h = ([], h)"
| "starLoop (Suc n) rad h =
     (let (r1, h1) = random h;
          (r2, h2) = random h1;
          (r3, h3) = random h2;
          (r4, h4) = random h3;
          (rest, h5) = starLoop n rad h4
      in (\<lparr>star_x = (r1 - 0.5) * rad * 1.6, star_y = (r2 - 0.5) * rad * 1.6,
           star_size = 0.5 + r3 * 1.5, twinkle = r4 * pi * 2\<rparr> # rest, h5))"

definition generateStarPositions :: "real \<Rightarrow> host \<Rightarrow> star list \<times> host" where
  "generateStarPositions rad h =
     (let (r, h1) = random h;
          starCount = 3 + \<lfloor>r * 4\<rfloor>
      in starLoop (nat starCount) rad h1)"

definition themeStars :: "theme option \<Rightarrow> real \<Rightarrow> host \<Rightarrow> star list \<times> host" where
  "themeStars th rad h =
     (case th of
        None \<Rightarrow> ([], h)
      | Some t \<Rightarrow> if stars t then generateStarPositions rad h else ([], h))"

definition themeHue :: "theme option \<Rightarrow> real \<Rightarrow> real" where
  "themeHue th r = (case th of Some t \<Rightarrow> hueBase t + (r - 0.5) * 60 | None \<Rightarrow> r * 360)"

text \<open>The constructor \<^verbatim>\<open>new Bubble(x, y, size, lifetime, theme)\<close>; \<open>i\<close> names the new object.\<close>

definition new_Bubble ::
  "nat \<Rightarrow> real \<Rightarrow> real \<Rightarrow> real \<Rightarrow> real \<Rightarrow> theme option \<Rightarrow> host \<Rightarrow> bubble \<times> host" where
  "new_Bubble i px py sz lt th h =
     (let (r1, h1) = random h;
          (r2, h2) = random h1;
          (r3, h3) = random h2;
          (r4, h4) = random h3;
          (r5, h5) = random h4;
          (r6, h6) = random h5;
          (sts, h7) = themeStars th (sz / 2) h6
      in (\<lparr>bid = i, x = px, y = py, size_b = sz, radius = sz / 2, lifetime = lt, age = 0,
           isAlive = True, vx = 0, vy = 0,
           wobbleOffset = r1 * pi * 2, wobbleSpeed = 0.02 + r2 * 0.02,
           spawnMomentumX = 0, spawnMomentumY = 0, spawnDirection = Bottom,
           opacity = 1, theme = th, hue = themeHue th r3, hueSpeed = 0.5 + r4 * 1,
           sparkleOffset = r5 * pi * 2, shimmerPhase = r6 * pi * 2, starPositions = sts\<rparr>, h7))"

section \<open>BubbleManager\<close>

text \<open>
  \<open>allocated\<close> counts the \<^verbatim>\<open>new Bubble\<close> calls made so far; it is not a field of the
  source. The next object's identity is its value.
\<close>

record bubble_manager =
  maxBubbles :: int
  bubbles :: "bubble list"
  bubblePool :: "bubble list"
  activeCount :: int
  allocated :: nat

definition new_BubbleManager :: "int \<Rightarrow> bubble_manager" where
  "new_BubbleManager m =
     \<lparr>maxBubbles = m, bubbles = [], bubblePool = [], activeCount = 0, allocated = 0\<rparr>"

text \<open>\<^verbatim>\<open>resetBubble(bubble, x, y, size, lifetime, theme)\<close>\<close>

definition resetBubble ::
  "bubble \<Rightarrow> real \<Rightarrow> real \<Rightarrow> real \<Rightarrow> real \<Rightarrow> theme option \<Rightarrow> host \<Rightarrow> bubble \<times> host" where
  "resetBubble b px py sz lt th h =
     (let (r1, h1) = random h;
          (r2, h2) = random h1;
          (r3, h3) = random h2;
          (r4, h4) = random h3;
          (sts, h5) = themeStars th (sz / 2) h4
      in (b\<lparr>x := px, y := py, size_b := sz, radius := sz / 2, lifetime := lt, age := 0,
            isAlive := True, opacity := 1, theme := th, vx := 0, vy := 0,
            wobbleOffset := r1 * pi * 2, hue := themeHue th r2,
            sparkleOffset := r3 * pi * 2, shimmerPhase := r4 * pi * 2,
            starPositions := sts\<rparr>, h5))"

text \<open>
  \<^verbatim>\<open>createBubble(x, y, size, lifetime, theme)\<close>. \<^verbatim>\<open>pop()\<close> takes the last element of
  the pool. \<open>maxBubbles\<close> is not read.
\<close>

definition createBubble ::
  "real \<Rightarrow> real \<Rightarrow> real \<Rightarrow> real \<Rightarrow> theme option \<Rightarrow> bubble_manager \<Rightarrow> host
   \<Rightarrow> bubble \<times> bubble_manager \<times> host" where
  "createBubble px py sz lt th bm h =
     (let (b, bm1, h1) =
            (if length (bubblePool bm) > 0
             then (let (b', h') = resetBubble (last (bubblePool bm)) px py sz lt th h
                   in (b', bm\<lparr>bubblePool := butlast (bubblePool bm)\<rparr>, h'))
             else (let (b', h') = new_Bubble (allocated bm) px py sz lt th h
                   in (b', bm\<lparr>allocated := Suc (allocated bm)\<rparr>, h')))
      in (b, bm1\<lparr>bubbles := bubbles bm1 @ [b], activeCount := activeCount bm1 + 1\<rparr>, h1))"

text \<open>
  \<^verbatim>\<open>removeBubble(index)\<close>. \<^verbatim>\<open>splice(index, 1)\<close> removes the element at \<open>index\<close>.
  \<^verbatim>\<open>update\<close>, the only caller, passes an index in range; out of range the source
  decrements the counter all the same (and pushes \<^verbatim>\<open>undefined\<close> onto the pool, which
  this model's pool cannot hold).
\<close>

definition removeBubble :: "nat \<Rightarrow> bubble_manager \<Rightarrow> bubble_manager" where
  "removeBubble index bm =
     (if index < length (bubbles bm)
      then bm\<lparr>bubbles := take index (bubbles bm) @ drop (Suc index) (bubbles bm),
              bubblePool := bubblePool bm @ [bubbles bm ! index],
              activeCount := activeCount bm - 1\<rparr>
      else bm\<lparr>activeCount := activeCount bm - 1\<rparr>)"

text \<open>
  \<^verbatim>\<open>update(deltaTime, physicsEngine, speedMultiplier)\<close>: the loop runs from the last
  index down to 0; \<open>update_from n\<close> is the loop with \<open>i = n - 1\<close> next. The bubble is an
  object of the array, so its update is written back at its index.
\<close>

fun update_from ::
  "nat \<Rightarrow> real \<Rightarrow> real \<Rightarrow> bubble_manager \<Rightarrow> physics option \<Rightarrow> host
   \<Rightarrow> bubble_manager \<times> physics option \<times> host" where
  "update_from 0 deltaTime sm bm pe h = (bm, pe, h)"
| "update_from (Suc i) deltaTime sm bm pe h =
     (if i < length (bubbles bm) then
        (let (b', pe', h') = bubble_update deltaTime pe sm (bubbles bm ! i) h;
             bm1 = bm\<lparr>bubbles := (bubbles bm)[i := b']\<rparr>;
             bm2 = (if \<not> isAlive b' then removeBubble i bm1 else bm1)
         in update_from i deltaTime sm bm2 pe' h')
      else (bm, pe, h))"

definition manager_update ::
  "real \<Rightarrow> physics option \<Rightarrow> real \<Rightarrow> bubble_manager \<Rightarrow> host
   \<Rightarrow> bubble_manager \<times> physics option \<times> host" where
  "manager_update deltaTime pe sm bm h =
     update_from (length (bubbles bm)) deltaTime sm bm pe h"

text \<open>
  \<^verbatim>\<open>render()\<close> sorts the array of active bubbles in place by descending size before
  drawing (\<^verbatim>\<open>Array.prototype.sort\<close> is stable); the drawing itself is not modelled.
\<close>

definition manager_render :: "bubble_manager \<Rightarrow> bubble_manager" where
  "manager_render bm = bm\<lparr>bubbles := sort_key (\<lambda>b. - size_b b) (bubbles bm)\<rparr>"



text \<open>\<^verbatim>\<open>popBubble(bubble)\<close>: the object is found by its identity.\<close>

definition popBubble :: "bubble \<Rightarrow> bubble_manager \<Rightarrow> bubble_manager" where
  "popBubble b bm =
     bm\<lparr>bubbles := map (\<lambda>c. if bid c = bid b then c\<lparr>isAlive := False\<rparr> else c) (bubbles bm)\<rparr>"

definition getActiveCount :: "bubble_manager \<Rightarrow> int" where
  "getActiveCount bm = activeCount bm"

section \<open>ParticleSystem\<close>

datatype particle_type = Droplet | Burst

datatype color = Named string | Hsl real real real

text \<open>
  \<open>pid\<close> is the identity of the particle object, as \<open>bid\<close> is for bubbles.
  \<^verbatim>\<open>maxSize\<close> is a property only \<^verbatim>\<open>createBurstEffect\<close> sets and only burst particles
  read; it is 0 here until it is set.
\<close>

record particle =
  pid :: nat
  x_p :: real
  y_p :: real
  vx_p :: real
  vy_p :: real
  size_p :: real
  opacity_p :: real
  color_p :: color
  lifetime_p :: real
  age_p :: real
  isAlive_p :: bool
  type_p :: particle_type
  rotation :: real
  rotationSpeed :: real
  maxSize_p :: real

record particle_config =
  baseParticleCount :: real
  maxParticleCount :: real
  particleLifetime :: real
  gravity_c :: real
  airResistance_c :: real
  minSize :: real
  maxSize :: real
  fadeOutDuration :: real

text \<open>
  \<open>allocatedParticles\<close> counts the objects \<^verbatim>\<open>createNewParticle\<close> has made; it is not
  a field of the source.
\<close>

record particle_system =
  particles :: "particle list"
  particlePool :: "particle list"
  maxParticles :: int
  activeParticles :: int
  config :: particle_config
  performanceMode :: bool
  qualityLevel :: real
  allocatedParticles :: nat

definition new_ParticleSystem :: particle_system where
  "new_ParticleSystem =
     \<lparr>particles = [], particlePool = [], maxParticles = 200, activeParticles = 0,
      config = \<lparr>baseParticleCount = 8, maxParticleCount = 20, particleLifetime = 1000,
                gravity_c = 0.3, airResistance_c = 0.98, minSize = 1, maxSize = 4,
                fadeOutDuration = 300\<rparr>,
      performanceMode = False, qualityLevel = 1.0, allocatedParticles = 0\<rparr>"

text \<open>\<^verbatim>\<open>createNewParticle()\<close>; \<open>i\<close> names the new object.\<close>

definition createNewParticle :: "nat \<Rightarrow> particle" where
  "createNewParticle i =
     \<lparr>pid = i, x_p = 0, y_p = 0, vx_p = 0, vy_p = 0, size_p = 1, opacity_p = 1,
      color_p = Named ''#87CEEB'', lifetime_p = 1000, age_p = 0, isAlive_p = True,
      type_p = Droplet, rotation = 0, rotationSpeed = 0, maxSize_p = 0\<rparr>"

text \<open>\<^verbatim>\<open>resetParticle(particle)\<close>\<close>

definition resetParticle :: "particle \<Rightarrow> host \<Rightarrow> particle \<times> host" where
  "resetParticle p h =
     (let (r, h1) = random h
      in (p\<lparr>age_p := 0, isAlive_p := True, type_p := Droplet, rotation := 0,
            rotationSpeed := (r - 0.5) * 0.2\<rparr>, h1))"

text \<open>\<^verbatim>\<open>getDropletColor(bubbleSize)\<close>\<close>

definition getDropletColor :: "real \<Rightarrow> host \<Rightarrow> color \<times> host" where
  "getDropletColor bubbleSize h =
     (let (r1, h1) = random h;
          (r2, h2) = random h1;
          (r3, h3) = random h2
      in (Hsl (200 + r1 * 40) (40 + r2 * 30) (70 + r3 * 20), h3))"

text \<open>
  \<^verbatim>\<open>createDropletParticle(centerX, centerY, bubbleSize, index, totalParticles)\<close>:
  a pooled particle if there is one, a new one otherwise; no limit is checked here.
\<close>

definition createDropletParticle ::
  "real \<Rightarrow> real \<Rightarrow> real \<Rightarrow> real \<Rightarrow> real \<Rightarrow> particle_system \<Rightarrow> host \<Rightarrow> particle_system \<times> host" where
  "createDropletParticle centerX centerY bubbleSize index totalParticles ps h =
     (let (p0, ps1, h1) =
            (if length (particlePool ps) > 0
             then (let (p', h') = resetParticle (last (particlePool ps)) h
                   in (p', ps\<lparr>particlePool := butlast (particlePool ps)\<rparr>, h'))
             else (createNewParticle (allocatedParticles ps),
                   ps\<lparr>allocatedParticles := Suc (allocatedParticles ps)\<rparr>, h));
          p1 = p0\<lparr>x_p := centerX, y_p := centerY\<rparr>;
          (r1, h2) = random h1;
          angle = (pi * 2 * index) / totalParticles + (r1 - 0.5) * 0.5;
          (r2, h3) = random h2;
          speed = 2 + r2 * 4;
          speedMultiplier = sqrt (bubbleSize / 150);
          p2 = p1\<lparr>vx_p := cos angle * speed * speedMultiplier,
                  vy_p := sin angle * speed * speedMultiplier - 1\<rparr>;
          (r3, h4) = random h3;
          sizeFactor = 0.5 + r3 * 0.5;
          p3 = p2\<lparr>size_p := (minSize (config ps1) +
                              (maxSize (config ps1) - minSize (config ps1)) * sizeFactor) *
                             sqrt (bubbleSize / 150)\<rparr>;
          (r4, h5) = random h4;
          (c, h6) = getDropletColor bubbleSize h5;
          (r5, h7) = random h6;
          p4 = p3\<lparr>opacity_p := 0.8 + r4 * 0.2, color_p := c,
                  lifetime_p := particleLifetime (config ps1) + (r5 - 0.5) * 200\<rparr>
      in (ps1\<lparr>particles := particles ps1 @ [p4], activeParticles := activeParticles ps1 + 1\<rparr>, h7))"

text \<open>\<^verbatim>\<open>getPooledParticle()\<close>: \<open>None\<close> is the source's \<^verbatim>\<open>null\<close>.\<close>

definition getPooledParticle :: "particle_system \<Rightarrow> host \<Rightarrow> particle option \<times> particle_system \<times> host" where
  "getPooledParticle ps h =
     (if length (particlePool ps) > 0
      then (let (p, h1) = resetParticle (last (particlePool ps)) h
            in (Some p, ps\<lparr>particlePool := butlast (particlePool ps)\<rparr>, h1))
      else if activeParticles ps < maxParticles ps
      then (Some (createNewParticle (allocatedParticles ps)),
            ps\<lparr>allocatedParticles := Suc (allocatedParticles ps)\<rparr>, h)
      else (None, ps, h))"

text \<open>\<^verbatim>\<open>createBurstEffect(x, y, bubbleSize)\<close>\<close>

definition createBurstEffect :: "real \<Rightarrow> real \<Rightarrow> real \<Rightarrow> particle_system \<Rightarrow> host \<Rightarrow> particle_system \<times> host" where
  "createBurstEffect px py bubbleSize ps h =
     (case getPooledParticle ps h of
        (None, ps1, h1) \<Rightarrow> (ps1, h1)
      | (Some p, ps1, h1) \<Rightarrow>
          (let burstParticle =
                 p\<lparr>x_p := px, y_p := py, type_p := Burst, size_p := bubbleSize * 0.1,
                   maxSize_p := bubbleSize * 1.3, opacity_p := 0.4, lifetime_p := 200,
                   age_p := 0, color_p := Named ''rgba(200, 230, 255, 0.3)''\<rparr>
           in (ps1\<lparr>particles := particles ps1 @ [burstParticle],
                    activeParticles := activeParticles ps1 + 1\<rparr>, h1)))"

text \<open>
  \<^verbatim>\<open>createPopEffect(x, y, bubbleSize)\<close>. \<open>dropletLoop k i\<close> is the \<^verbatim>\<open>for\<close> loop with
  \<open>k\<close> iterations left and the loop variable at \<open>i\<close>.
\<close>

fun dropletLoop ::
  "nat \<Rightarrow> nat \<Rightarrow> real \<Rightarrow> real \<Rightarrow> real \<Rightarrow> real \<Rightarrow> particle_system \<Rightarrow> host \<Rightarrow> particle_system \<times> host" where
  "dropletLoop 0 i px py bubbleSize totalParticles ps h = (ps, h)"
| "dropletLoop (Suc k) i px py bubbleSize totalParticles ps h =
     (let (ps1, h1) = createDropletParticle px py bubbleSize (real i) totalParticles ps h
      in dropletLoop k (Suc i) px py bubbleSize totalParticles ps1 h1)"

text \<open>
  \<^verbatim>\<open>Math.floor(this.config.baseParticleCount * sizeRatio * this.qualityLevel)\<close>: the two
  products and the quotient \<^verbatim>\<open>bubbleSize / 150\<close> are double operations, left to right.
\<close>

definition particleCount :: "particle_system \<Rightarrow> real \<Rightarrow> int" where
  "particleCount ps bubbleSize =
     (let sizeRatio = max 0.5 (min 3.0 (ddiv bubbleSize 150))
      in \<lfloor>dmul (dmul (baseParticleCount (config ps)) sizeRatio) (qualityLevel ps)\<rfloor>)"

definition actualCount :: "particle_system \<Rightarrow> real \<Rightarrow> int" where
  "actualCount ps bubbleSize =
     (let availableSlots = maxParticles ps - activeParticles ps
      in min (particleCount ps bubbleSize) availableSlots)"

definition createPopEffect :: "real \<Rightarrow> real \<Rightarrow> real \<Rightarrow> particle_system \<Rightarrow> host \<Rightarrow> particle_system \<times> host" where
  "createPopEffect px py bubbleSize ps h =
     (let n = actualCount ps bubbleSize;
          (ps1, h1) = dropletLoop (nat n) 0 px py bubbleSize (real_of_int n) ps h
      in createBurstEffect px py bubbleSize ps1 h1)"

text \<open>\<^verbatim>\<open>removeParticle(index)\<close>: nothing happens when the index is out of range.\<close>

definition removeParticle :: "nat \<Rightarrow> particle_system \<Rightarrow> particle_system" where
  "removeParticle index ps =
     (if index < length (particles ps)
      then ps\<lparr>particles := take index (particles ps) @ drop (Suc index) (particles ps),
              particlePool := particlePool ps @ [particles ps ! index],
              activeParticles := activeParticles ps - 1\<rparr>
      else ps)"

text \<open>\<^verbatim>\<open>updateDropletParticle(particle, dt)\<close>\<close>

definition updateDropletParticle :: "particle_system \<Rightarrow> host \<Rightarrow> real \<Rightarrow> particle \<Rightarrow> particle" where
  "updateDropletParticle ps h dt p =
     (let p1 = p\<lparr>vy_p := vy_p p + gravity_c (config ps) * dt\<rparr>;
          p2 = p1\<lparr>vx_p := vx_p p1 * (airResistance_c (config ps) powr dt),
                  vy_p := vy_p p1 * (airResistance_c (config ps) powr dt)\<rparr>;
          p3 = p2\<lparr>x_p := x_p p2 + vx_p p2 * dt, y_p := y_p p2 + vy_p p2 * dt\<rparr>;
          p4 = p3\<lparr>rotation := rotation p3 + rotationSpeed p3 * dt\<rparr>;
          ageRatio = age_p p4 / lifetime_p p4;
          p5 = (if ageRatio < 0.3 then p4\<lparr>size_p := size_p p4 * (1 + 0.01 * dt)\<rparr>
                else p4\<lparr>size_p := size_p p4 * (1 - 0.005 * dt)\<rparr>)
      in if size_p p5 < 0.5 \<or> x_p p5 < -50 \<or> x_p p5 > innerWidth h + 50 \<or>
            y_p p5 > innerHeight h + 100
         then p5\<lparr>isAlive_p := False\<rparr> else p5)"

text \<open>\<^verbatim>\<open>updateBurstParticle(particle, dt)\<close>\<close>

definition updateBurstParticle :: "real \<Rightarrow> particle \<Rightarrow> particle" where
  "updateBurstParticle dt p =
     (let progress = age_p p / lifetime_p p;
          p1 = p\<lparr>size_p := maxSize_p p * progress, opacity_p := 0.4 * (1 - progress)\<rparr>
      in if progress \<ge> 1 then p1\<lparr>isAlive_p := False\<rparr> else p1)"

text \<open>\<^verbatim>\<open>updateParticleOpacity(particle)\<close>\<close>

definition updateParticleOpacity :: "particle_system \<Rightarrow> particle \<Rightarrow> particle" where
  "updateParticleOpacity ps p =
     (let ageRatio = age_p p / lifetime_p p
      in if type_p p = Droplet then
           let fadeStart = 1 - fadeOutDuration (config ps) / lifetime_p p
           in if ageRatio > fadeStart
              then let fadeProgress = (ageRatio - fadeStart) / (1 - fadeStart)
                   in p\<lparr>opacity_p := opacity_p p * (1 - fadeProgress)\<rparr>
              else p
         else p)"

text \<open>\<^verbatim>\<open>updateParticle(particle, dt)\<close>\<close>

definition updateParticle :: "particle_system \<Rightarrow> host \<Rightarrow> real \<Rightarrow> particle \<Rightarrow> particle" where
  "updateParticle ps h dt p =
     (let p1 = p\<lparr>age_p := age_p p + dt * 16.67\<rparr>;
          p2 = (if type_p p1 = Burst then updateBurstParticle dt p1
                else updateDropletParticle ps h dt p1)
      in updateParticleOpacity ps p2)"

text \<open>
  \<^verbatim>\<open>update(deltaTime)\<close>: the loop runs from the last index down to 0;
  \<open>particles_from n\<close> is the loop with \<open>i = n - 1\<close> next.
\<close>

fun particles_from :: "nat \<Rightarrow> real \<Rightarrow> host \<Rightarrow> particle_system \<Rightarrow> particle_system" where
  "particles_from 0 dt h ps = ps"
| "particles_from (Suc i) dt h ps =
     (if i < length (particles ps) then
        (let p = particles ps ! i in
         if \<not> isAlive_p p then particles_from i dt h (removeParticle i ps)
         else
           let p' = updateParticle ps h dt p;
               ps1 = ps\<lparr>particles := (particles ps)[i := p']\<rparr>
           in if age_p p' \<ge> lifetime_p p' \<or> opacity_p p' \<le> 0
              then particles_from i dt h (removeParticle i ps1)
              else particles_from i dt h ps1)
      else ps)"

definition particleSystem_update :: "real \<Rightarrow> host \<Rightarrow> particle_system \<Rightarrow> particle_system" where
  "particleSystem_update deltaTime h ps =
     (let dt = deltaTime / 16.67 in particles_from (length (particles ps)) dt h ps)"

text \<open>\<^verbatim>\<open>clearAll()\<close>\<close>

definition clearAll :: "particle_system \<Rightarrow> particle_system" where
  "clearAll ps =
     ps\<lparr>particlePool := particlePool ps @ particles ps, particles := [], activeParticles := 0\<rparr>"

text \<open>\<^verbatim>\<open>enablePerformanceMode(enabled)\<close> of the particle system.\<close>

definition enablePerformanceMode :: "bool \<Rightarrow> particle_system \<Rightarrow> particle_system" where
  "enablePerformanceMode enabled ps =
     (if enabled
      then ps\<lparr>performanceMode := enabled, maxParticles := 100, qualityLevel := double 0.7,
              config := (config ps)\<lparr>baseParticleCount := 6, maxParticleCount := 12\<rparr>\<rparr>
      else ps\<lparr>performanceMode := enabled, maxParticles := 200, qualityLevel := 1.0,
              config := (config ps)\<lparr>baseParticleCount := 8, maxParticleCount := 20\<rparr>\<rparr>)"

text \<open>\<^verbatim>\<open>setQualityLevel(level)\<close>\<close>

definition setQualityLevel :: "real \<Rightarrow> particle_system \<Rightarrow> particle_system" where
  "setQualityLevel level ps = ps\<lparr>qualityLevel := max (double 0.1) (min 1.0 level)\<rparr>"

text \<open>
  \<^verbatim>\<open>createSplashEffect(x, y, intensity)\<close>: the loop stops at the first \<^verbatim>\<open>null\<close> of
  \<^verbatim>\<open>getPooledParticle\<close>.
\<close>

fun splashLoop ::
  "nat \<Rightarrow> nat \<Rightarrow> real \<Rightarrow> real \<Rightarrow> real \<Rightarrow> particle_system \<Rightarrow> host \<Rightarrow> particle_system \<times> host" where
  "splashLoop 0 i px py totalCount ps h = (ps, h)"
| "splashLoop (Suc k) i px py totalCount ps h =
     (case getPooledParticle ps h of
        (None, ps1, h1) \<Rightarrow> (ps1, h1)
      | (Some p, ps1, h1) \<Rightarrow>
          (let angle = (pi * 2 * real i) / totalCount;
               (r1, h2) = random h1;
               speed = 3 + r1 * 2;
               (r2, h3) = random h2;
               (r3, h4) = random h3;
               (c, h5) = getDropletColor 30 h4;
               (r4, h6) = random h5;
               p1 = p\<lparr>x_p := px, y_p := py, vx_p := cos angle * speed,
                       vy_p := sin angle * speed - 2, size_p := 1 + r2 * 2,
                       lifetime_p := 800 + r3 * 400, color_p := c, opacity_p := 0.6 + r4 * 0.4\<rparr>
           in splashLoop k (Suc i) px py totalCount
                (ps1\<lparr>particles := particles ps1 @ [p1],
                      activeParticles := activeParticles ps1 + 1\<rparr>) h6))"

definition createSplashEffect :: "real \<Rightarrow> real \<Rightarrow> real \<Rightarrow> particle_system \<Rightarrow> host \<Rightarrow> particle_system \<times> host" where
  "createSplashEffect px py intensity ps h =
     (let n = \<lfloor>dmul (dmul 12 intensity) (qualityLevel ps)\<rfloor>
      in splashLoop (nat n) 0 px py (real_of_int n) ps h)"

section \<open>AudioManager\<close>

text \<open>
  The Web Audio context is modelled by what the manager does to it: the nodes it has
  created, and for each node when \<^verbatim>\<open>start\<close> was called and the time of the last
  \<^verbatim>\<open>stop\<close> call. A node handle is the node's index. Connections and parameter
  automation are not modelled, apart from one platform rule: an \<^verbatim>\<open>AudioParam\<close> method
  takes a Web IDL \<^verbatim>\<open>float\<close>, so a call with \<^verbatim>\<open>NaN\<close> raises \<^verbatim>\<open>TypeError\<close>.
  \<open>rejectsNonFinite\<close> says whether the context applies that rule.
\<close>

datatype theme_name = Classic | Oil | Crystal | Galaxy

datatype context_state = Suspended | Running | Closed

datatype node_kind = BufferSource | Gain | Oscillator | BiquadFilter

datatype jsnum = Num real | NaN

datatype js_error = TypeError

record audio_node =
  kind :: node_kind
  startedAt :: "real option"
  stopAt :: "real option"

record audio_context =
  contextState :: context_state
  currentTime :: real
  nodes :: "audio_node list"
  rejectsNonFinite :: bool

record audio_buffer =
  buffer_duration :: real

record sound =
  sid :: real
  source :: "nat option"
  gainNode :: nat
  oscillator :: "nat option"
  filterNode :: "nat option"
  harmonic :: "nat option"
  startTime :: real
  duration :: real

record queued_sound =
  q_bubbleSize :: real
  q_theme :: theme_name
  timestamp :: real

text \<open>
  \<^verbatim>\<open>playAudioFile\<close> reads \<^verbatim>\<open>this.bubblePopBuffer\<close> and \<^verbatim>\<open>createPopSound\<close> reads
  \<^verbatim>\<open>this.baseFrequency\<close> and \<^verbatim>\<open>this.frequencyRange\<close>. The constructor does not set
  them and no statement of the repository assigns them: they are fields here, \<open>None\<close>
  (\<^verbatim>\<open>undefined\<close>) from the constructor on. \<open>onended\<close> and \<open>timeouts\<close> are the
  callbacks registered with the browser and not yet run: the source node with the sound
  id its \<^verbatim>\<open>onended\<close> handler cleans up, and the delay of a \<^verbatim>\<open>setTimeout\<close> with the
  sound id its callback cleans up.
\<close>

record audio_manager =
  audioContext :: "audio_context option"
  isEnabled :: bool
  isMuted :: bool
  volume :: real
  isInitialized :: bool
  bubblePopBuffers :: "theme_name \<Rightarrow> audio_buffer option"
  isBufferLoaded :: bool
  maxSimultaneousSounds :: int
  activeSounds :: "sound list"
  soundQueue :: "queued_sound list"
  bubblePopBuffer :: "audio_buffer option"
  baseFrequency :: "real option"
  frequencyRange :: "real option"
  onended :: "(nat \<times> real) list"
  timeouts :: "(real \<times> real) list"

definition new_AudioManager :: audio_manager where
  "new_AudioManager =
     \<lparr>audioContext = None, isEnabled = True, isMuted = False, volume = 0.3,
      isInitialized = False, bubblePopBuffers = (\<lambda>t. None), isBufferLoaded = False,
      maxSimultaneousSounds = 5, activeSounds = [], soundQueue = [],
      bubblePopBuffer = None, baseFrequency = None, frequencyRange = None,
      onended = [], timeouts = []\<rparr>"

text \<open>
  \<^verbatim>\<open>init()\<close> on a platform with Web Audio, where nothing throws: \<open>ctx\<close> is the context
  \<^verbatim>\<open>new AudioContext()\<close> returned and \<open>decoded\<close> what fetching and decoding gave for
  each theme (\<open>None\<close> where it failed).
\<close>

definition init :: "audio_context \<Rightarrow> (theme_name \<Rightarrow> audio_buffer option) \<Rightarrow> audio_manager \<Rightarrow> audio_manager" where
  "init ctx decoded am =
     (let am1 = am\<lparr>audioContext := Some ctx\<rparr>;
          am2 = am1\<lparr>bubblePopBuffers := decoded, isBufferLoaded := True\<rparr>
      in if contextState ctx = Suspended then am2 else am2\<lparr>isInitialized := True\<rparr>)"

definition createNode :: "node_kind \<Rightarrow> audio_context \<Rightarrow> nat \<times> audio_context" where
  "createNode k ctx =
     (length (nodes ctx),
      ctx\<lparr>nodes := nodes ctx @ [\<lparr>kind = k, startedAt = None, stopAt = None\<rparr>]\<rparr>)"

definition startNode :: "nat \<Rightarrow> real \<Rightarrow> audio_context \<Rightarrow> audio_context" where
  "startNode n t ctx = ctx\<lparr>nodes := (nodes ctx)[n := (nodes ctx ! n)\<lparr>startedAt := Some t\<rparr>]\<rparr>"

definition stopNode :: "nat \<Rightarrow> real \<Rightarrow> audio_context \<Rightarrow> audio_context" where
  "stopNode n t ctx = ctx\<lparr>nodes := (nodes ctx)[n := (nodes ctx ! n)\<lparr>stopAt := Some t\<rparr>]\<rparr>"

definition paramAccepts :: "audio_context \<Rightarrow> jsnum \<Rightarrow> bool" where
  "paramAccepts ctx v = (case v of Num r \<Rightarrow> True | NaN \<Rightarrow> \<not> rejectsNonFinite ctx)"

definition jsmul :: "jsnum \<Rightarrow> real \<Rightarrow> jsnum" where
  "jsmul v k = (case v of Num r \<Rightarrow> Num (r * k) | NaN \<Rightarrow> NaN)"

text \<open>
  \<^verbatim>\<open>createHarmonic(frequency, duration, volume)\<close>: its own \<^verbatim>\<open>try\<close> returns
  \<^verbatim>\<open>null\<close> when a call throws; the nodes made before the throw stay.
\<close>

definition createHarmonic :: "jsnum \<Rightarrow> real \<Rightarrow> real \<Rightarrow> audio_context \<Rightarrow> nat option \<times> audio_context" where
  "createHarmonic frequency dur vol ctx =
     (let (osc, c1) = createNode Oscillator ctx;
          (gn, c2) = createNode Gain c1
      in if paramAccepts c2 frequency then (Some osc, c2) else (None, c2))"

text \<open>
  \<^verbatim>\<open>synthesizePopSound(frequency, duration, sizeRatio, soundId)\<close>. The first
  \<^verbatim>\<open>AudioParam\<close> call is \<^verbatim>\<open>oscillator.frequency.setValueAtTime(frequency, ...)\<close>;
  \<open>Inl\<close> is the exception with the manager as it is when it is thrown.
\<close>

definition synthesizePopSound ::
  "jsnum \<Rightarrow> real \<Rightarrow> real \<Rightarrow> real \<Rightarrow> audio_manager \<Rightarrow> (js_error \<times> audio_manager) + (sound \<times> audio_manager)" where
  "synthesizePopSound frequency dur sizeRatio soundId am =
     (case audioContext am of
        None \<Rightarrow> Inl (TypeError, am)
      | Some ctx \<Rightarrow>
          (let (osc, c1) = createNode Oscillator ctx;
               (gn, c2) = createNode Gain c1;
               (fl, c3) = createNode BiquadFilter c2
           in if paramAccepts c3 frequency then
                (let attackTime = 0.005;
                     now = currentTime c3;
                     peakVolume = volume am * (0.5 + sizeRatio * 0.3);
                     (harm, c4) = createHarmonic (jsmul frequency 2) (dur * 0.5) (peakVolume * 0.3) c3;
                     c5 = startNode osc now c4;
                     c6 = stopNode osc (now + dur) c5;
                     c7 = (case harm of
                             None \<Rightarrow> c6
                           | Some hn \<Rightarrow> stopNode hn (now + dur) (startNode hn (now + attackTime) c6))
                 in Inr (\<lparr>sid = soundId, source = None, gainNode = gn, oscillator = Some osc,
                          filterNode = Some fl, harmonic = harm, startTime = now, duration = dur\<rparr>,
                         am\<lparr>audioContext := Some c7\<rparr>))
              else Inl (TypeError, am\<lparr>audioContext := Some c3\<rparr>)))"

text \<open>
  \<^verbatim>\<open>createPopSound(bubbleSize)\<close>. \<^verbatim>\<open>undefined + undefined * r\<close> is \<^verbatim>\<open>NaN\<close>. The
  \<^verbatim>\<open>catch\<close> logs the error and returns.
\<close>

definition createPopSound :: "real \<Rightarrow> audio_manager \<Rightarrow> host \<Rightarrow> audio_manager \<times> host" where
  "createPopSound bubbleSize am h =
     (let (r, h1) = random h;
          soundId = dateNow h + r;
          sizeRatio = max 0.3 (min 3.0 (bubbleSize / 150));
          frequency = (case (baseFrequency am, frequencyRange am) of
                         (Some bf, Some fr) \<Rightarrow> Num (bf + fr * (1 - sizeRatio * 0.5))
                       | _ \<Rightarrow> NaN);
          dur = 0.08 + sizeRatio * 0.04
      in case synthesizePopSound frequency dur sizeRatio soundId am of
           Inl (e, am1) \<Rightarrow> (am1, h1)
         | Inr (s, am1) \<Rightarrow>
             (am1\<lparr>activeSounds := activeSounds am1 @ [s],
                   timeouts := timeouts am1 @ [(dur * 1000 + 100, soundId)]\<rparr>, h1))"

text \<open>
  \<^verbatim>\<open>playAudioFile(bubbleSize, theme)\<close>. After \<^verbatim>\<open>source.start(now)\<close> the source reads
  \<^verbatim>\<open>this.bubblePopBuffer.duration\<close>: with the field \<^verbatim>\<open>undefined\<close> that is a
  \<^verbatim>\<open>TypeError\<close>, and the \<^verbatim>\<open>catch\<close> calls \<^verbatim>\<open>createPopSound\<close>.
\<close>

definition playAudioFile :: "real \<Rightarrow> theme_name \<Rightarrow> audio_manager \<Rightarrow> host \<Rightarrow> audio_manager \<times> host" where
  "playAudioFile bubbleSize th am h =
     (let (r, h1) = random h;
          soundId = dateNow h + r
      in case audioContext am of
           None \<Rightarrow> createPopSound bubbleSize am h1
         | Some ctx \<Rightarrow>
             (let (src, c1) = createNode BufferSource ctx;
                  (gn, c2) = createNode Gain c1;
                  sizeRatio = max 0.3 (min 3.0 (bubbleSize / 150));
                  playbackRate = 0.8 + (1 - sizeRatio * 0.3);
                  volumeVariation = 0.7 + sizeRatio * 0.6;
                  (r2, h2) = random h1;
                  randomVariation = 0.8 + r2 * 0.4;
                  finalVolume = volume am * volumeVariation * randomVariation;
                  now = currentTime c2;
                  c3 = startNode src now c2;
                  am1 = am\<lparr>audioContext := Some c3\<rparr>
              in case bubblePopBuffer am1 of
                   None \<Rightarrow> createPopSound bubbleSize am1 h2
                 | Some buf \<Rightarrow>
                     (let dur = buffer_duration buf / playbackRate;
                          s = \<lparr>sid = soundId, source = Some src, gainNode = gn,
                               oscillator = None, filterNode = None, harmonic = None,
                               startTime = now, duration = dur\<rparr>
                      in (am1\<lparr>activeSounds := activeSounds am1 @ [s],
                               onended := onended am1 @ [(src, soundId)]\<rparr>, h2))))"

text \<open>\<^verbatim>\<open>processQueuedSounds()\<close>\<close>

definition processQueuedSounds :: "audio_manager \<Rightarrow> host \<Rightarrow> audio_manager \<times> host" where
  "processQueuedSounds am h =
     (let now = dateNow h;
          am1 = am\<lparr>soundQueue := filter (\<lambda>s. now - timestamp s < 100) (soundQueue am)\<rparr>
      in case soundQueue am1 of
           [] \<Rightarrow> (am1, h)
         | nextSound # rest \<Rightarrow>
             if int (length (activeSounds am1)) < maxSimultaneousSounds am1 then
               (let am2 = am1\<lparr>soundQueue := rest\<rparr>
                in if isBufferLoaded am2 \<and> bubblePopBuffers am2 (q_theme nextSound) \<noteq> None
                   then playAudioFile (q_bubbleSize nextSound) (q_theme nextSound) am2 h
                   else createPopSound (q_bubbleSize nextSound) am2 h)
             else (am1, h))"

text \<open>\<^verbatim>\<open>cleanupSound(soundId)\<close>\<close>

definition cleanupSound :: "real \<Rightarrow> audio_manager \<Rightarrow> host \<Rightarrow> audio_manager \<times> host" where
  "cleanupSound soundId am h =
     processQueuedSounds (am\<lparr>activeSounds := filter (\<lambda>s. sid s \<noteq> soundId) (activeSounds am)\<rparr>) h"

text \<open>
  The guard of \<^verbatim>\<open>playPopSound\<close>:
  \<^verbatim>\<open>!this.isEnabled || this.isMuted || !this.audioContext || !this.isInitialized\<close>,
  then \<^verbatim>\<open>this.audioContext.state === 'suspended'\<close>.
\<close>

definition refusesSound :: "audio_manager \<Rightarrow> bool" where
  "refusesSound am =
     (if \<not> isEnabled am then True
      else if isMuted am then True
      else case audioContext am of
             None \<Rightarrow> True
           | Some ctx \<Rightarrow> if \<not> isInitialized am then True else contextState ctx = Suspended)"

text \<open>\<^verbatim>\<open>playPopSound(bubbleSize, theme)\<close>\<close>

definition playPopSound :: "real \<Rightarrow> theme_name \<Rightarrow> audio_manager \<Rightarrow> host \<Rightarrow> audio_manager \<times> host" where
  "playPopSound bubbleSize th am h =
     (if refusesSound am then (am, h)
      else if int (length (activeSounds am)) \<ge> maxSimultaneousSounds am then
        processQueuedSounds
          (am\<lparr>soundQueue := soundQueue am @
                  [\<lparr>q_bubbleSize = bubbleSize, q_theme = th, timestamp = dateNow h\<rparr>]\<rparr>) h
      else if isBufferLoaded am \<and> bubblePopBuffers am th \<noteq> None then
        playAudioFile bubbleSize th am h
      else if isBufferLoaded am \<and> bubblePopBuffers am Classic \<noteq> None then
        playAudioFile bubbleSize Classic am h
      else createPopSound bubbleSize am h)"

text \<open>
  \<^verbatim>\<open>stopAllSounds()\<close>: for each active sound, \<^verbatim>\<open>stop()\<close> on its \<^verbatim>\<open>oscillator\<close> and on
  its \<^verbatim>\<open>harmonic\<close> when the sound has them; then both lists are emptied.
\<close>

definition stopSound :: "audio_context \<Rightarrow> sound \<Rightarrow> audio_context" where
  "stopSound ctx s =
     (let c1 = (case oscillator s of Some n \<Rightarrow> stopNode n (currentTime ctx) ctx | None \<Rightarrow> ctx)
      in case harmonic s of Some n \<Rightarrow> stopNode n (currentTime c1) c1 | None \<Rightarrow> c1)"

definition stopAllSounds :: "audio_manager \<Rightarrow> audio_manager" where
  "stopAllSounds am =
     am\<lparr>audioContext := map_option (\<lambda>ctx. foldl stopSound ctx (activeSounds am)) (audioContext am),
        activeSounds := [], soundQueue := []\<rparr>"

text \<open>
  \<^verbatim>\<open>toggleMute()\<close>, without the asynchronous \<^verbatim>\<open>resume()\<close> it requests on a suspended
  context. The result is the flag it returns and the manager.
\<close>

definition toggleMute :: "audio_manager \<Rightarrow> bool \<times> audio_manager" where
  "toggleMute am =
     (let am1 = am\<lparr>isMuted := \<not> isMuted am\<rparr>;
          am2 = (if isMuted am1 then stopAllSounds am1 else am1)
      in (\<not> isMuted am2, am2))"

text \<open>\<^verbatim>\<open>enablePerformanceMode(enabled)\<close> of the audio manager.\<close>

definition audio_enablePerformanceMode :: "bool \<Rightarrow> audio_manager \<Rightarrow> audio_manager" where
  "audio_enablePerformanceMode enabled am =
     (if enabled then am\<lparr>maxSimultaneousSounds := 2\<rparr> else am\<lparr>maxSimultaneousSounds := 3\<rparr>)"

text \<open>
  The browser runs a registered callback: the \<open>i\<close>-th pending \<^verbatim>\<open>setTimeout\<close> callback,
  or the \<^verbatim>\<open>onended\<close> handler of the \<open>i\<close>-th registered source. Both call
  \<^verbatim>\<open>cleanupSound\<close> with the sound id they were registered with.
\<close>

definition fireTimeout :: "nat \<Rightarrow> audio_manager \<Rightarrow> host \<Rightarrow> audio_manager \<times> host" where
  "fireTimeout i am h =
     (if i < length (timeouts am)
      then cleanupSound (snd (timeouts am ! i))
             (am\<lparr>timeouts := take i (timeouts am) @ drop (Suc i) (timeouts am)\<rparr>) h
      else (am, h))"

definition fireOnended :: "nat \<Rightarrow> audio_manager \<Rightarrow> host \<Rightarrow> audio_manager \<times> host" where
  "fireOnended i am h =
     (if i < length (onended am)
      then cleanupSound (snd (onended am ! i))
             (am\<lparr>onended := take i (onended am) @ drop (Suc i) (onended am)\<rparr>) h
      else (am, h))"

section \<open>Predicates and example states used by the properties\<close>

text \<open>The opacity invariant of a bubble, with the data model's \<open>0 \<le> age\<close>.\<close>

definition opacity_ok :: "bubble \<Rightarrow> bool" where
  "opacity_ok b = (0 \<le> age b \<and> 0 \<le> opacity b \<and> opacity b \<le> 1)"

text \<open>
  A host whose \<^verbatim>\<open>Math.random()\<close> always returns 0, on a 1000 by 800 window, and a
  manager holding one bubble of size 150 made by \<^verbatim>\<open>createBubble\<close>; \<open>agedBubble\<close> is
  that bubble 17000 ms into its 18000 ms lifetime.
\<close>

definition host0 :: host where
  "host0 = \<lparr>draws = (\<lambda>n. 0), drawn = 0, dateNow = 1000, innerWidth = 1000, innerHeight = 800\<rparr>"

definition oneBubble :: bubble_manager where
  "oneBubble = fst (snd (createBubble 500 400 150 18000 None (new_BubbleManager 25) host0))"

definition agedBubble :: bubble where
  "agedBubble = (fst (createBubble 500 400 150 18000 None (new_BubbleManager 25) host0))\<lparr>age := 17000\<rparr>"

text \<open>
  An engine for the 1000 by 800 window, as its constructor builds it with \<open>host0\<close>, then
  switched to simple physics; and a new bubble of size 130 at \<open>(-60, 300)\<close>, 60 pixels
  left of the visible area, at rest.
\<close>

definition calmEngine :: physics where
  "calmEngine = enableSimplePhysics True (fst (new_PhysicsEngine 1000 800 host0))"

definition driftingBubble :: bubble where
  "driftingBubble = fst (new_Bubble 0 (-60) 300 130 18000 None host0)"

text \<open>
  Two overlapping bubbles: the first made has size 60 and centre \<open>(10, 0)\<close>, the second
  size 100 and centre \<open>(0, 0)\<close>.
\<close>

definition twoBubbles :: bubble_manager where
  "twoBubbles =
     (case createBubble 10 0 60 18000 None (new_BubbleManager 25) host0 of
        (b1, bm1, h1) \<Rightarrow>
          (case createBubble 0 0 100 18000 None bm1 h1 of (b2, bm2, h2) \<Rightarrow> bm2))"

text \<open>
  A bubble that \<^verbatim>\<open>Bubble.update\<close> hands to the physics engine in a frame of
  \<open>deltaTime\<close>: alive, and not expiring in this frame.
\<close>

definition settling :: "real \<Rightarrow> bubble \<Rightarrow> bool" where
  "settling deltaTime b = (isAlive b \<and> age b + deltaTime < lifetime b)"

text \<open>The engine for the 1000 by 800 window as its constructor leaves it.\<close>

definition freshEngine :: physics where
  "freshEngine = fst (new_PhysicsEngine 1000 800 host0)"

text \<open>
  The number of droplets and of burst rings among the active particles, and the particle
  system after \<open>k\<close> pops of a bubble of one size at the centre of the window.
\<close>

definition dropletCount :: "particle_system \<Rightarrow> nat" where
  "dropletCount ps = length (filter (\<lambda>p. type_p p = Droplet) (particles ps))"

definition burstCount :: "particle_system \<Rightarrow> nat" where
  "burstCount ps = length (filter (\<lambda>p. type_p p = Burst) (particles ps))"

fun popTimes :: "nat \<Rightarrow> real \<Rightarrow> particle_system \<Rightarrow> host \<Rightarrow> particle_system \<times> host" where
  "popTimes 0 bubbleSize ps h = (ps, h)"
| "popTimes (Suc k) bubbleSize ps h =
     (let (ps1, h1) = popTimes k bubbleSize ps h in createPopEffect 500 400 bubbleSize ps1 h1)"

text \<open>
  The pool accounting of both pools, on the identities of the instances: the active and
  the free list together hold all the instances allocated so far, none of them twice. For a manager it says this of its two lists
  and adds that the counter the source keeps is the length of the active list.
\<close>

definition pool_ok :: "nat list \<Rightarrow> nat list \<Rightarrow> nat \<Rightarrow> bool" where
  "pool_ok act free totalAllocated =
     (length act + length free = totalAllocated \<and> distinct (act @ free) \<and>
      list_all (\<lambda>i. i < totalAllocated) (act @ free))"

definition bubble_pool_inv :: "bubble_manager \<Rightarrow> bool" where
  "bubble_pool_inv bm =
     (activeCount bm = int (length (bubbles bm)) \<and>
      pool_ok (map bid (bubbles bm)) (map bid (bubblePool bm)) (allocated bm))"

definition particle_pool_inv :: "particle_system \<Rightarrow> bool" where
  "particle_pool_inv ps =
     (activeParticles ps = int (length (particles ps)) \<and>
      pool_ok (map pid (particles ps)) (map pid (particlePool ps)) (allocatedParticles ps))"

text \<open>The particle pool has not allocated more instances than \<^verbatim>\<open>maxParticles\<close>.\<close>

definition within_capacity :: "particle_system \<Rightarrow> bool" where
  "within_capacity ps = (int (allocatedParticles ps) \<le> maxParticles ps)"

text \<open>A manager told that its maximum is one bubble, after two \<^verbatim>\<open>createBubble\<close> calls.\<close>

definition overfullManager :: bubble_manager where
  "overfullManager =
     (case createBubble 300 400 100 18000 None (new_BubbleManager 1) host0 of
        (b1, bm1, h1) \<Rightarrow>
          (case createBubble 600 400 100 18000 None bm1 h1 of (b2, bm2, h2) \<Rightarrow> bm2))"

text \<open>
  Audio managers after a successful \<^verbatim>\<open>init()\<close> with all four theme buffers decoded (each
  0.3 s long) on a running context at time 0: \<open>readyManager\<close> on a context that applies
  the Web IDL rule for \<^verbatim>\<open>NaN\<close>, \<open>lenientManager\<close> on one that does not.
  \<open>audioHost\<close> is a host at \<^verbatim>\<open>Date.now() = 1000\<close> whose random draws differ from one
  another; \<open>threeTriggers\<close> is three \<^verbatim>\<open>playPopSound(150, 'classic')\<close> calls in a row
  at that instant.
\<close>

definition strictContext :: audio_context where
  "strictContext = \<lparr>contextState = Running, currentTime = 0, nodes = [], rejectsNonFinite = True\<rparr>"

definition lenientContext :: audio_context where
  "lenientContext = \<lparr>contextState = Running, currentTime = 0, nodes = [], rejectsNonFinite = False\<rparr>"

definition allBuffers :: "theme_name \<Rightarrow> audio_buffer option" where
  "allBuffers = (\<lambda>t. Some \<lparr>buffer_duration = 3 / 10\<rparr>)"

definition readyManager :: audio_manager where
  "readyManager = init strictContext allBuffers new_AudioManager"

definition lenientManager :: audio_manager where
  "lenientManager = init lenientContext allBuffers new_AudioManager"

definition audioHost :: host where
  "audioHost = \<lparr>draws = (\<lambda>n. real n / 32), drawn = 0, dateNow = 1000,
                 innerWidth = 1000, innerHeight = 800\<rparr>"

definition threeTriggers :: "audio_manager \<Rightarrow> audio_manager" where
  "threeTriggers am =
     (case playPopSound 150 Classic am audioHost of
        (a1, h1) \<Rightarrow>
          (case playPopSound 150 Classic a1 h1 of
             (a2, h2) \<Rightarrow> fst (playPopSound 150 Classic a2 h2)))"

text \<open>What the context knows of its nodes: the kind, the start time, the last stop time.\<close>

definition nodeLog :: "audio_manager \<Rightarrow> (node_kind \<times> real option \<times> real option) list" where
  "nodeLog am =
     (case audioContext am of
        None \<Rightarrow> []
      | Some ctx \<Rightarrow> map (\<lambda>n. (kind n, startedAt n, stopAt n)) (nodes ctx))"

text \<open>The buffer sources of the context that have been started.\<close>

definition startedSources :: "audio_manager \<Rightarrow> nat" where
  "startedSources am =
     length (filter (\<lambda>(k, s, e). k = BufferSource \<and> s \<noteq> None) (nodeLog am))"

section \<open>Properties of Bubble.update\<close>

lemma applyBuoyancy_frame:
  "age (applyBuoyancy pe dt g b) = age b" "lifetime (applyBuoyancy pe dt g b) = lifetime b"
  "opacity (applyBuoyancy pe dt g b) = opacity b"
  by (simp_all add: applyBuoyancy_def Let_def)

lemma applyWobble_frame:
  "age (applyWobble pe dt g b) = age b" "lifetime (applyWobble pe dt g b) = lifetime b"
  "opacity (applyWobble pe dt g b) = opacity b"
  by (simp_all add: applyWobble_def Let_def)

lemma applyBreeze_frame:
  "age (applyBreeze pe h dt g b) = age b" "lifetime (applyBreeze pe h dt g b) = lifetime b"
  "opacity (applyBreeze pe h dt g b) = opacity b"
  by (simp_all add: applyBreeze_def Let_def)

lemma applyAirResistance_frame:
  "age (applyAirResistance pe dt b) = age b" "lifetime (applyAirResistance pe dt b) = lifetime b"
  "opacity (applyAirResistance pe dt b) = opacity b"
  by (simp_all add: applyAirResistance_def Let_def)

lemma handleBoundaries_frame:
  "age (handleBoundaries pe b) = age b" "lifetime (handleBoundaries pe b) = lifetime b"
  "opacity (handleBoundaries pe b) = opacity b"
  by (simp_all add: handleBoundaries_def Let_def)

lemma applySizeEffects_frame:
  "age (fst (applySizeEffects dt b h)) = age b" "lifetime (fst (applySizeEffects dt b h)) = lifetime b"
  "opacity (fst (applySizeEffects dt b h)) = opacity b"
  by (simp_all add: applySizeEffects_def Let_def split_def)

lemma integratePosition_frame:
  "age (integratePosition dt b) = age b" "lifetime (integratePosition dt b) = lifetime b"
  "opacity (integratePosition dt b) = opacity b"
  by (simp_all add: integratePosition_def Let_def)

lemma updateBubble_frame:
  "age (fst (snd (updateBubble pe b dT h))) = age b"
  "lifetime (fst (snd (updateBubble pe b dT h))) = lifetime b"
  "opacity (fst (snd (updateBubble pe b dT h))) = opacity b"
  by (simp_all add: updateBubble_def Let_def split_def applyBuoyancy_frame applyWobble_frame
        applyBreeze_frame applyAirResistance_frame handleBoundaries_frame applySizeEffects_frame
        integratePosition_frame)

lemma updatePosition_frame:
  "age (fst (updatePosition dT pe sm b h)) = age b"
  "lifetime (fst (updatePosition dT pe sm b h)) = lifetime b"
  "opacity (fst (updatePosition dT pe sm b h)) = opacity b"
  by (cases pe; simp add: updatePosition_def fallbackPhysics_def Let_def split_def updateBubble_frame)+

lemma updateHue_frame:
  "age (updateHue b) = age b" "lifetime (updateHue b) = lifetime b" "opacity (updateHue b) = opacity b"
  by (simp_all add: updateHue_def Let_def)

lemma updateThemeAnimations_frame:
  "age (updateThemeAnimations b) = age b" "lifetime (updateThemeAnimations b) = lifetime b"
  "opacity (updateThemeAnimations b) = opacity b"
  by (simp_all add: updateThemeAnimations_def Let_def split: option.splits)

lemma checkBounds_frame:
  "age (checkBounds h b) = age b" "lifetime (checkBounds h b) = lifetime b"
  "opacity (checkBounds h b) = opacity b"
  by (simp_all add: checkBounds_def)

lemma fadeOut_frame:
  "age (fadeOut b) = age b" "lifetime (fadeOut b) = lifetime b"
  by (simp_all add: fadeOut_def Let_def)

lemmas frames = updatePosition_frame updateHue_frame updateThemeAnimations_frame checkBounds_frame fadeOut_frame

lemma bubble_update_age:
  "age (fst (bubble_update dT pe sm b h)) = (if isAlive b then age b + dT else age b)"
  "lifetime (fst (bubble_update dT pe sm b h)) = lifetime b"
  by (simp_all add: bubble_update_def Let_def split_def frames)

lemma bubble_update_opacity:
  "opacity (fst (bubble_update dT pe sm b h)) =
     (if isAlive b \<and> age b + dT < lifetime b \<and> (age b + dT) / lifetime b > 0.92
      then 1 - ((age b + dT) / lifetime b - 0.92) / 0.08 else opacity b)"
  by (simp add: bubble_update_def Let_def split_def frames fadeOut_def)

lemma removeBubble_set: "set (bubbles (removeBubble i bm)) \<subseteq> set (bubbles bm)"
  by (auto simp: removeBubble_def dest: in_set_takeD in_set_dropD)

lemma update_from_preserves:
  assumes step: "\<And>b pe h. P b \<Longrightarrow> P (fst (bubble_update dT pe sm b h))"
  shows "list_all P (bubbles bm) \<Longrightarrow> list_all P (bubbles (fst (update_from n dT sm bm pe h)))"
proof (induction n arbitrary: bm pe h)
  case 0
  then show ?case by simp
next
  case (Suc n)
  show ?case
  proof (cases "n < length (bubbles bm)")
    case False
    with Suc.prems show ?thesis by simp
  next
    case True
    obtain b' pe' h' where upd: "bubble_update dT pe sm (bubbles bm ! n) h = (b', pe', h')"
      by (cases "bubble_update dT pe sm (bubbles bm ! n) h") auto
    let ?bm1 = "bm\<lparr>bubbles := (bubbles bm)[n := b']\<rparr>"
    have "P (bubbles bm ! n)"
      using Suc.prems True by (simp add: list_all_length)
    then have "P b'"
      using step[of "bubbles bm ! n" pe h] upd by simp
    then have all1: "list_all P (bubbles ?bm1)"
      using Suc.prems by (auto simp: list_all_iff dest!: set_update_subset_insert[THEN subsetD])
    have all2: "list_all P (bubbles (removeBubble n ?bm1))"
      using all1 removeBubble_set[of n ?bm1] by (auto simp: list_all_iff)
    show ?thesis
      using True upd Suc.IH[OF all1] Suc.IH[OF all2] by (simp add: Let_def)
  qed
qed

lemma bubble_update_opacity_ok:
  assumes "0 \<le> dT" "opacity_ok b"
  shows "opacity_ok (fst (bubble_update dT pe sm b h))"
proof -
  have ramp: "0 \<le> 1 - (r - 0.92) / 0.08 \<and> 1 - (r - 0.92) / 0.08 \<le> 1"
    if "r < 1" "0.92 < r" for r :: real
    using that by (simp add: field_simps)
  have "0 \<le> 1 - ((age b + dT) / lifetime b - 0.92) / 0.08 \<and> 1 - ((age b + dT) / lifetime b - 0.92) / 0.08 \<le> 1"
    if lt: "age b + dT < lifetime b" and gt: "(age b + dT) / lifetime b > 0.92"
  proof -
    have pos: "0 < lifetime b" using lt assms by (simp add: opacity_ok_def)
    then have "(age b + dT) / lifetime b < 1" using lt by simp
    with gt show ?thesis by (intro ramp)
  qed
  then show ?thesis
    using assms by (auto simp: opacity_ok_def bubble_update_opacity bubble_update_age)
qed

lemma createBubble_bubbles:
  "bubbles (fst (snd (createBubble px py sz lt th bm h))) = bubbles bm @ [fst (createBubble px py sz lt th bm h)]"
  by (simp add: createBubble_def Let_def split_def)

lemma new_Bubble_fresh: "age (fst (new_Bubble i px py sz lt th h)) = 0" "opacity (fst (new_Bubble i px py sz lt th h)) = 1"
  by (simp_all add: new_Bubble_def Let_def split_def)

lemma resetBubble_fresh: "age (fst (resetBubble b px py sz lt th h)) = 0" "opacity (fst (resetBubble b px py sz lt th h)) = 1"
  by (simp_all add: resetBubble_def Let_def split_def)

lemma createBubble_fresh: "age (fst (createBubble px py sz lt th bm h)) = 0" "opacity (fst (createBubble px py sz lt th bm h)) = 1"
  by (simp_all add: createBubble_def Let_def split_def new_Bubble_fresh resetBubble_fresh)

text \<open>
  C10. When a physics engine is supplied, \<^verbatim>\<open>Bubble.update\<close> passes the speed multiplier
  on as a third argument of \<^verbatim>\<open>updateBubble\<close>, which takes two: for the same bubble,
  frame time, engine and host state, any two speed multipliers give the same bubble,
  engine and host state. Only the branch without an engine reads it.
\<close>

theorem update_with_engine_ignores_speedMultiplier:
  "bubble_update deltaTime (Some pe) sm1 b h = bubble_update deltaTime (Some pe) sm2 b h"
proof -
  have same: "updatePosition deltaTime (Some pe) sm1 c h = updatePosition deltaTime (Some pe) sm2 c h"
    for c
    by (simp add: updatePosition_def)
  show ?thesis
    unfolding bubble_update_def same by (rule refl)
qed

text \<open>
  C9. With frame times that are not negative and bubbles whose age is not negative,
  every active bubble keeps \<open>0 \<le> opacity \<le> 1\<close>: after a frame of the manager's
  \<^verbatim>\<open>update\<close> and after \<^verbatim>\<open>createBubble\<close> (a new or a recycled bubble starts with opacity
  1 and age 0). And whenever \<^verbatim>\<open>Bubble.update\<close> lowers a bubble's opacity, the bubble's
  age is past 92 percent of its lifetime.
\<close>

theorem opacity_in_unit_interval_and_late_fade:
  assumes "0 \<le> deltaTime" and "list_all opacity_ok (bubbles bm)"
  shows "list_all opacity_ok (bubbles (fst (manager_update deltaTime pe sm bm h))) \<and>
         list_all opacity_ok (bubbles (fst (snd (createBubble px py sz lt th bm h)))) \<and>
         (\<forall>b. opacity (fst (bubble_update deltaTime pe sm b h)) < opacity b \<longrightarrow>
              age (fst (bubble_update deltaTime pe sm b h)) / lifetime (fst (bubble_update deltaTime pe sm b h)) > 0.92)"
proof (intro conjI allI impI)
  show "list_all opacity_ok (bubbles (fst (manager_update deltaTime pe sm bm h)))"
    unfolding manager_update_def
    using assms by (intro update_from_preserves bubble_update_opacity_ok)
  show "list_all opacity_ok (bubbles (fst (snd (createBubble px py sz lt th bm h))))"
    using assms(2) by (simp add: createBubble_bubbles opacity_ok_def createBubble_fresh)
  fix b
  assume "opacity (fst (bubble_update deltaTime pe sm b h)) < opacity b"
  then show "age (fst (bubble_update deltaTime pe sm b h)) / lifetime (fst (bubble_update deltaTime pe sm b h)) > 0.92"
    by (simp add: bubble_update_opacity bubble_update_age split: if_splits)
qed


lemma createBubble_first:
  "bubbles (new_BubbleManager m) = []" "bubblePool (new_BubbleManager m) = []"
  by (simp_all add: new_BubbleManager_def)

theorem opacity_in_unit_interval_and_late_fade_witness:
  "(0::real) \<le> 16 \<and> list_all opacity_ok (bubbles oneBubble) \<and>
   list_all opacity_ok (bubbles (fst (manager_update 16 None 1 oneBubble host0))) \<and>
   opacity (fst (bubble_update 16 None 1 agedBubble host0)) < opacity agedBubble \<and>
   age (fst (bubble_update 16 None 1 agedBubble host0)) /
     lifetime (fst (bubble_update 16 None 1 agedBubble host0)) > 0.92"
proof -
  have h1: "(0::real) \<le> 16" by simp
  have h2: "list_all opacity_ok (bubbles oneBubble)"
    by (simp add: oneBubble_def createBubble_bubbles createBubble_first opacity_ok_def
        createBubble_fresh)
  have fields: "isAlive agedBubble" "age agedBubble = 17000" "lifetime agedBubble = 18000"
    "opacity agedBubble = 1"
    by (simp_all add: agedBubble_def createBubble_def createBubble_first new_Bubble_def
        Let_def split_def)
  have lower: "opacity (fst (bubble_update 16 None 1 agedBubble host0)) < opacity agedBubble"
    by (simp add: bubble_update_opacity fields)
  from opacity_in_unit_interval_and_late_fade[OF h1 h2, of None 1 host0 0 0 1 1 None]
  show ?thesis using h1 h2 lower by blast
qed

section \<open>Properties of the hit test\<close>

lemma sqrt_less_iff: "0 < r \<Longrightarrow> sqrt d < r \<longleftrightarrow> d < r\<^sup>2"
  by (metis abs_of_pos real_sqrt_abs real_sqrt_less_iff)












section \<open>Properties of the grace period\<close>

lemma calmEngine_fields:
  "width calmEngine = 1000" "height calmEngine = 800" "gravity calmEngine = -0.05"
  "airResistance calmEngine = 0.995" "windForce calmEngine = (0, 0)" "targetWind calmEngine = (0, 0)"
  "lastWindUpdate calmEngine = 0" "windUpdateInterval calmEngine = 5000" "simplePhysics calmEngine"
  "breezeZones calmEngine =
     [\<lparr>zone_x = 0, zone_y = 0, zone_radius = 150, strength = 0.05, direction = 0, pulseSpeed = 0.0005, phase = 0\<rparr>,
      \<lparr>zone_x = 0, zone_y = 0, zone_radius = 150, strength = 0.05, direction = 0, pulseSpeed = 0.0005, phase = 0\<rparr>]"
  by (simp_all add: calmEngine_def enableSimplePhysics_def new_PhysicsEngine_def generateBreezeZones_def
      Let_def split_def random_def host0_def numeral_eq_Suc)

lemma driftingBubble_fields:
  "x driftingBubble = -60" "y driftingBubble = 300" "size_b driftingBubble = 130"
  "vx driftingBubble = 0" "vy driftingBubble = 0" "age driftingBubble = 0"
  by (simp_all add: driftingBubble_def new_Bubble_def Let_def split_def)

lemma env_calm:
  "width (fst (updateEnvironmentalForces calmEngine (1667/100) host0)) = 1000"
  "height (fst (updateEnvironmentalForces calmEngine (1667/100) host0)) = 800"
  "gravity (fst (updateEnvironmentalForces calmEngine (1667/100) host0)) = -0.05"
  "airResistance (fst (updateEnvironmentalForces calmEngine (1667/100) host0)) = 0.995"
  "windForce (fst (updateEnvironmentalForces calmEngine (1667/100) host0)) = (0, 0)"
  "simplePhysics (fst (updateEnvironmentalForces calmEngine (1667/100) host0))"
  "breezeZones (fst (updateEnvironmentalForces calmEngine (1667/100) host0)) = breezeZones calmEngine"
  "snd (updateEnvironmentalForces calmEngine (1667/100) host0) = host0"
  by (simp_all add: updateEnvironmentalForces_def Let_def split_def calmEngine_fields)

lemma grace_drifting: "isInSpawnGracePeriod (fst (updateEnvironmentalForces calmEngine (1667/100) host0)) driftingBubble"
  by (simp add: isInSpawnGracePeriod_def Let_def env_calm driftingBubble_fields)

lemma breeze_none: "getLocalBreeze (fst (updateEnvironmentalForces calmEngine (1667/100) host0)) host0 (-60) 300 = (0, 0)"
  by (simp add: getLocalBreeze_def env_calm calmEngine_fields breezeStep_def Let_def sqrt_less_iff)

lemma force_stage:
  "applyBreeze (fst (updateEnvironmentalForces calmEngine (1667/100) host0)) host0 1 (1/10)
     (applyWobble (fst (updateEnvironmentalForces calmEngine (1667/100) host0)) 1 (1/10)
        (applyBuoyancy (fst (updateEnvironmentalForces calmEngine (1667/100) host0)) 1 (1/10) driftingBubble))
   = driftingBubble\<lparr>vy := - (23 / 2000)\<rparr>"
  by (simp add: env_calm applyBuoyancy_def applyWobble_def applyBreeze_def breeze_none driftingBubble_fields Let_def)


lemma applyAirResistance_below_terminal:
  assumes "(vx b * (airResistance pe powr dt))\<^sup>2 + (vy b * (airResistance pe powr dt))\<^sup>2
             \<le> (0.8 + size_b b / 200)\<^sup>2"
    and "0 \<le> 0.8 + size_b b / 200"
  shows "applyAirResistance pe dt b =
           b\<lparr>vx := vx b * (airResistance pe powr dt), vy := vy b * (airResistance pe powr dt)\<rparr>"
proof -
  let ?p = "airResistance pe powr dt"
  have "sqrt ((vx b * ?p) * (vx b * ?p) + (vy b * ?p) * (vy b * ?p)) \<le> 0.8 + size_b b / 200"
    using assms by (intro real_le_lsqrt) (simp_all add: power2_eq_square)
  then show ?thesis
    by (simp add: applyAirResistance_def Let_def)
qed

lemma air_stage:
  "applyAirResistance (fst (updateEnvironmentalForces calmEngine (1667/100) host0)) 1 (driftingBubble\<lparr>vy := - (23 / 2000)\<rparr>)
     = driftingBubble\<lparr>vy := - (23 / 2000), vx := 0, vy := - (4577 / 400000)\<rparr>"
  by (subst applyAirResistance_below_terminal) (simp_all add: env_calm driftingBubble_fields power2_eq_square)

lemma handleBoundaries_fields:
  "size_b (handleBoundaries pe b) = size_b b"
  "vx (handleBoundaries pe b) =
     (if x b < 50 then vx b + (50 - x b) * 0.001
      else if x b > width pe - 50 then vx b - (x b - (width pe - 50)) * 0.001 else vx b)"
  "vy (handleBoundaries pe b) = (if y b < 50 then vy b + (50 - y b) * 0.001 else vy b)"
  by (simp_all add: handleBoundaries_def Let_def)

lemma applySizeEffects_mid:
  "150 * 0.8 \<le> size_b b \<Longrightarrow> size_b b \<le> 150 \<Longrightarrow> applySizeEffects dt b h = (b, h)"
  by (simp add: applySizeEffects_def Let_def)

lemma step_drifting:
  "vx (fst (snd (updateBubble calmEngine driftingBubble (1667/100) host0))) = 11 / 100"
  "vy (fst (snd (updateBubble calmEngine driftingBubble (1667/100) host0))) = - (4577 / 400000)"
  by (simp_all add: updateBubble_def Let_def split_def graceFactor_def grace_drifting force_stage
      applySizeEffects_mid handleBoundaries_fields air_stage env_calm driftingBubble_fields
      integratePosition_def)


lemma forces_linear:
  "vx (applyBreeze pe h dt g (applyWobble pe dt g (applyBuoyancy pe dt g b))) - vx b =
     g * (vx (applyBreeze pe h dt 1 (applyWobble pe dt 1 (applyBuoyancy pe dt 1 b))) - vx b)"
  "vy (applyBreeze pe h dt g (applyWobble pe dt g (applyBuoyancy pe dt g b))) - vy b =
     g * (vy (applyBreeze pe h dt 1 (applyWobble pe dt 1 (applyBuoyancy pe dt 1 b))) - vy b)"
  "x (applyBreeze pe h dt g (applyWobble pe dt g (applyBuoyancy pe dt g b))) = x b"
  "y (applyBreeze pe h dt g (applyWobble pe dt g (applyBuoyancy pe dt g b))) = y b"
  by (simp_all add: applyBreeze_def applyWobble_def applyBuoyancy_def Let_def algebra_simps)

text \<open>
  C3, amended. A bubble is in its grace period exactly when its age is at most 2000 ms
  and its position is outside the visible area widened by 50 pixels on every side (the
  position of the moment, not the first entry). In \<^verbatim>\<open>updateBubble\<close> the grace factor,
  0.1 in the grace period and 1 otherwise, scales the velocity change of buoyancy, wobble
  and wind (global wind and local breeze), which do not move the bubble; air resistance,
  the position update, the boundary push and the size effects are then applied to the
  result with no factor.
\<close>

theorem grace_factor_scales_buoyancy_wobble_wind:
  "(let dt = min (deltaTime / 16.67) 2;
        pe1 = fst (updateEnvironmentalForces pe deltaTime h);
        h1 = snd (updateEnvironmentalForces pe deltaTime h);
        g = graceFactor pe1 b;
        forces = (\<lambda>k. applyBreeze pe1 h1 dt k (applyWobble pe1 dt k (applyBuoyancy pe1 dt k b)))
    in isInSpawnGracePeriod pe1 b =
         (age b \<le> 2000 \<and> \<not> (- 50 < x b \<and> x b < width pe + 50 \<and> - 50 < y b \<and> y b < height pe + 50)) \<and>
       g = (if isInSpawnGracePeriod pe1 b then 1 / 10 else 1) \<and>
       vx (forces g) - vx b = g * (vx (forces 1) - vx b) \<and>
       vy (forces g) - vy b = g * (vy (forces 1) - vy b) \<and>
       x (forces g) = x b \<and> y (forces g) = y b \<and>
       updateBubble pe b deltaTime h =
         (pe1, applySizeEffects dt
                 (handleBoundaries pe1 (integratePosition dt (applyAirResistance pe1 dt (forces g)))) h1))"
proof -
  have dims: "width (fst (updateEnvironmentalForces pe deltaTime h)) = width pe"
    "height (fst (updateEnvironmentalForces pe deltaTime h)) = height pe"
    by (simp_all add: updateEnvironmentalForces_def generateNewWindPattern_def Let_def split_def)
  have grace: "isInSpawnGracePeriod (fst (updateEnvironmentalForces pe deltaTime h)) b =
         (age b \<le> 2000 \<and> \<not> (- 50 < x b \<and> x b < width pe + 50 \<and> - 50 < y b \<and> y b < height pe + 50))"
    by (auto simp: isInSpawnGracePeriod_def Let_def dims)
  show ?thesis
    unfolding Let_def
    apply (intro conjI)
          apply (rule grace)
         apply (simp add: graceFactor_def)
        apply (rule forces_linear)
       apply (rule forces_linear)
      apply (rule forces_linear)
     apply (rule forces_linear)
    apply (simp add: updateBubble_def Let_def split_def)
    done
qed

text \<open>
  C3, as stated, fails on \<open>driftingBubble\<close> with \<open>calmEngine\<close> and a frame of 16.67 ms:
  the bubble is in its grace period; a full-strength buoyancy step would change \<open>vy\<close> by
  \<open>-23/200\<close>, the step taken changes it by \<open>-23/2000\<close>; the boundary push on \<open>vx\<close> is
  \<open>(50 + 60) * 0.001 = 11/100\<close>, not a tenth of it. After the frame \<open>vx = 11/100\<close> and
  \<open>vy = -(23/2000) * 0.995\<close>.
\<close>

theorem grace_period_scales_buoyancy_not_boundary_push:
  "isInSpawnGracePeriod (fst (updateEnvironmentalForces calmEngine (1667/100) host0)) driftingBubble \<and>
   vy (applyBuoyancy (fst (updateEnvironmentalForces calmEngine (1667/100) host0)) 1 1 driftingBubble)
     = - (23 / 200) \<and>
   vy (applyBuoyancy (fst (updateEnvironmentalForces calmEngine (1667/100) host0)) 1
        (graceFactor (fst (updateEnvironmentalForces calmEngine (1667/100) host0)) driftingBubble)
        driftingBubble) = - (23 / 2000) \<and>
   vx (handleBoundaries (fst (updateEnvironmentalForces calmEngine (1667/100) host0)) driftingBubble)
     = 11 / 100 \<and>
   vx (fst (snd (updateBubble calmEngine driftingBubble (1667/100) host0))) = 11 / 100 \<and>
   vy (fst (snd (updateBubble calmEngine driftingBubble (1667/100) host0))) = - (4577 / 400000)"
  by (simp add: grace_drifting step_drifting applyBuoyancy_def graceFactor_def env_calm
      driftingBubble_fields handleBoundaries_fields)

section \<open>Properties of the wind clock\<close>

lemma env_no_roll:
  assumes "lastWindUpdate pe + dT < windUpdateInterval pe"
  shows "updateEnvironmentalForces pe dT h =
           (pe\<lparr>lastWindUpdate := lastWindUpdate pe + dT,
               windForce := (fst (windForce pe) + (fst (targetWind pe) - fst (windForce pe)) * 0.02,
                             snd (windForce pe) + (snd (targetWind pe) - snd (windForce pe)) * 0.02)\<rparr>, h)"
  using assms by (simp add: updateEnvironmentalForces_def Let_def)

lemma updateBubble_engine: "fst (updateBubble pe b dT h) = fst (updateEnvironmentalForces pe dT h)"
  by (simp add: updateBubble_def Let_def split_def)

lemma bubble_update_engine:
  assumes "settling dT b"
  shows "fst (snd (bubble_update dT (Some pe) sm b h)) = Some (fst (updateEnvironmentalForces pe dT h))"
  using assms
  by (simp add: settling_def bubble_update_def updatePosition_def Let_def split_def updateBubble_engine)

lemma bubble_update_engine_None:
  "fst (snd (bubble_update dT None sm b h)) = None"
  by (simp add: bubble_update_def updatePosition_def Let_def split_def)

lemma removeBubble_nth: "j < i \<Longrightarrow> bubbles (removeBubble i bm) ! j = bubbles bm ! j"
  by (simp add: removeBubble_def nth_append)

lemma removeBubble_length: "i < length (bubbles bm) \<Longrightarrow> length (bubbles (removeBubble i bm)) = length (bubbles bm) - 1"
  by (simp add: removeBubble_def)

lemma update_from_engine:
  "n \<le> length (bubbles bm) \<Longrightarrow> \<forall>i<n. settling dT (bubbles bm ! i) \<Longrightarrow>
   lastWindUpdate pe + real n * dT < windUpdateInterval pe \<Longrightarrow> 0 \<le> dT \<Longrightarrow>
   \<exists>pe'. fst (snd (update_from n dT sm bm (Some pe) h)) = Some pe' \<and>
     lastWindUpdate pe' = lastWindUpdate pe + real n * dT \<and>
     windUpdateInterval pe' = windUpdateInterval pe \<and>
     targetWind pe' = targetWind pe \<and>
     fst (windForce pe') - fst (targetWind pe) = 0.98 ^ n * (fst (windForce pe) - fst (targetWind pe)) \<and>
     snd (windForce pe') - snd (targetWind pe) = 0.98 ^ n * (snd (windForce pe) - snd (targetWind pe))"
proof (induction n arbitrary: bm pe h)
  case 0
  then show ?case by simp
next
  case (Suc n)
  have nlt: "n < length (bubbles bm)" using Suc.prems(1) by simp
  have sett: "settling dT (bubbles bm ! n)" using Suc.prems(2) by simp
  have step_lt: "lastWindUpdate pe + dT < windUpdateInterval pe"
  proof -
    have "real n * dT \<ge> 0" using Suc.prems(4) by simp
    then show ?thesis using Suc.prems(3) by (simp add: algebra_simps)
  qed
  obtain b' pe1 h' where upd: "bubble_update dT (Some pe) sm (bubbles bm ! n) h = (b', pe1, h')"
    by (cases "bubble_update dT (Some pe) sm (bubbles bm ! n) h") auto
  let ?pe1 = "pe\<lparr>lastWindUpdate := lastWindUpdate pe + dT,
               windForce := (fst (windForce pe) + (fst (targetWind pe) - fst (windForce pe)) * 0.02,
                             snd (windForce pe) + (snd (targetWind pe) - snd (windForce pe)) * 0.02)\<rparr>"
  have pe1: "pe1 = Some ?pe1"
    using bubble_update_engine[OF sett, of pe sm h] upd env_no_roll[OF step_lt, of h] by simp
  let ?bm1 = "bm\<lparr>bubbles := (bubbles bm)[n := b']\<rparr>"
  let ?bm2 = "if \<not> isAlive b' then removeBubble n ?bm1 else ?bm1"
  have len2: "n \<le> length (bubbles ?bm2)"
    using nlt by (auto simp: removeBubble_length)
  have sett2: "\<forall>i<n. settling dT (bubbles ?bm2 ! i)"
    using Suc.prems(2) by (simp add: removeBubble_nth)
  have lt2: "lastWindUpdate ?pe1 + real n * dT < windUpdateInterval ?pe1"
    using Suc.prems(3) by (simp add: algebra_simps)
  from Suc.IH[OF len2 sett2 lt2 Suc.prems(4), of h']
  obtain pe' where res: "fst (snd (update_from n dT sm ?bm2 (Some ?pe1) h')) = Some pe'"
     and f: "lastWindUpdate pe' = lastWindUpdate ?pe1 + real n * dT"
     "windUpdateInterval pe' = windUpdateInterval ?pe1"
     "targetWind pe' = targetWind ?pe1"
     "fst (windForce pe') - fst (targetWind ?pe1) = 0.98 ^ n * (fst (windForce ?pe1) - fst (targetWind ?pe1))"
     "snd (windForce pe') - snd (targetWind ?pe1) = 0.98 ^ n * (snd (windForce ?pe1) - snd (targetWind ?pe1))"
    by blast
  have "fst (snd (update_from (Suc n) dT sm bm (Some pe) h)) = Some pe'"
    using nlt upd pe1 res by (simp add: Let_def)
  moreover have "lastWindUpdate pe' = lastWindUpdate pe + real (Suc n) * dT"
    using f(1) by (simp add: algebra_simps)
  moreover have "fst (windForce pe') - fst (targetWind pe) = 0.98 ^ Suc n * (fst (windForce pe) - fst (targetWind pe))"
  proof -
    have "fst (windForce ?pe1) - fst (targetWind ?pe1) = 0.98 * (fst (windForce pe) - fst (targetWind pe))"
      by (simp add: field_simps)
    with f(4) have "fst (windForce pe') - fst (targetWind ?pe1) =
        0.98 ^ n * (0.98 * (fst (windForce pe) - fst (targetWind pe)))"
      by (simp only:)
    then show ?thesis by simp
  qed
  moreover have "snd (windForce pe') - snd (targetWind pe) = 0.98 ^ Suc n * (snd (windForce pe) - snd (targetWind pe))"
  proof -
    have "snd (windForce ?pe1) - snd (targetWind ?pe1) = 0.98 * (snd (windForce pe) - snd (targetWind pe))"
      by (simp add: field_simps)
    with f(5) have "snd (windForce pe') - snd (targetWind ?pe1) =
        0.98 ^ n * (0.98 * (snd (windForce pe) - snd (targetWind pe)))"
      by (simp only:)
    then show ?thesis by simp
  qed
  ultimately show ?case using f(2,3) by simp
qed


lemma frame_advances_wind_clock_per_bubble:
  assumes "list_all (settling deltaTime) (bubbles bm)"
    and "lastWindUpdate pe + real (length (bubbles bm)) * deltaTime < windUpdateInterval pe"
    and "0 \<le> deltaTime"
  shows "\<exists>pe'. fst (snd (manager_update deltaTime (Some pe) sm bm h)) = Some pe' \<and>
     lastWindUpdate pe' = lastWindUpdate pe + real (length (bubbles bm)) * deltaTime \<and>
     targetWind pe' = targetWind pe \<and>
     fst (windForce pe') - fst (targetWind pe) =
       0.98 ^ length (bubbles bm) * (fst (windForce pe) - fst (targetWind pe)) \<and>
     snd (windForce pe') - snd (targetWind pe) =
       0.98 ^ length (bubbles bm) * (snd (windForce pe) - snd (targetWind pe))"
proof -
  have "\<forall>i<length (bubbles bm). settling deltaTime (bubbles bm ! i)"
    using assms(1) by (simp add: list_all_length)
  from update_from_engine[OF order_refl this assms(2,3), of sm h]
  show ?thesis unfolding manager_update_def by blast
qed

lemma random_draws: "draws (snd (random h)) = draws h"
  by (simp add: random_def)

lemma generateNewWindPattern_draws: "draws (snd (generateNewWindPattern pe h)) = draws h"
  by (simp add: generateNewWindPattern_def Let_def split_def random_draws)

lemma updateEnvironmentalForces_draws: "draws (snd (updateEnvironmentalForces pe dT h)) = draws h"
  by (simp add: updateEnvironmentalForces_def Let_def split_def generateNewWindPattern_draws)

lemma applySizeEffects_draws: "draws (snd (applySizeEffects dt b h)) = draws h"
  by (simp add: applySizeEffects_def Let_def split_def random_draws)

lemma updateBubble_draws: "draws (snd (snd (updateBubble pe b dT h))) = draws h"
  by (simp add: updateBubble_def Let_def split_def applySizeEffects_draws updateEnvironmentalForces_draws)

lemma bubble_update_draws: "draws (snd (snd (bubble_update dT pe sm b h))) = draws h"
  by (cases pe) (simp_all add: bubble_update_def updatePosition_def Let_def split_def updateBubble_draws)

lemma wind_pattern_zero_draws:
  assumes "draws h = (\<lambda>n. 0)"
  shows "targetWind (fst (generateNewWindPattern pe h)) = (3 / 20, 0)"
  using assms by (simp add: generateNewWindPattern_def Let_def split_def random_def)

lemma env_roll:
  assumes "windUpdateInterval pe \<le> lastWindUpdate pe + dT" and "draws h = (\<lambda>n. 0)"
  shows "lastWindUpdate (fst (updateEnvironmentalForces pe dT h)) = 0"
    and "targetWind (fst (updateEnvironmentalForces pe dT h)) = (3 / 20, 0)"
proof -
  have keep: "lastWindUpdate (fst (generateNewWindPattern q h)) = lastWindUpdate q" for q
    by (simp add: generateNewWindPattern_def Let_def split_def)
  show "lastWindUpdate (fst (updateEnvironmentalForces pe dT h)) = 0"
    using assms(1) by (simp add: updateEnvironmentalForces_def Let_def split_def)
  show "targetWind (fst (updateEnvironmentalForces pe dT h)) = (3 / 20, 0)"
    using assms(1) wind_pattern_zero_draws[OF assms(2)]
    by (simp add: updateEnvironmentalForces_def Let_def split_def)
qed

lemma freshEngine_fields:
  "lastWindUpdate freshEngine = 0" "windUpdateInterval freshEngine = 3000"
  "targetWind freshEngine = (0, 0)" "windForce freshEngine = (0, 0)"
  by (simp_all add: freshEngine_def new_PhysicsEngine_def Let_def split_def)

lemma new_Bubble_life:
  "age (fst (new_Bubble i px py sz lt th h)) = 0"
  "lifetime (fst (new_Bubble i px py sz lt th h)) = lt"
  "isAlive (fst (new_Bubble i px py sz lt th h))"
  by (simp_all add: new_Bubble_def Let_def split_def)

lemma twoBubbles_settling:
  "\<exists>b0 b1. bubbles twoBubbles = [b0, b1] \<and> settling 1500 b0 \<and> settling 1500 b1"
  by (simp add: twoBubbles_def createBubble_def new_BubbleManager_def Let_def split_def
      new_Bubble_life settling_def)

lemma oneBubble_settling:
  "\<exists>b0. bubbles oneBubble = [b0] \<and> settling 1500 b0"
  by (simp add: oneBubble_def createBubble_def new_BubbleManager_def Let_def split_def
      new_Bubble_life settling_def)

lemma host0_draws: "draws host0 = (\<lambda>n. 0)"
  by (simp add: host0_def)

text \<open>
  C5 on the code. \<^verbatim>\<open>updateEnvironmentalForces\<close> is called from \<^verbatim>\<open>updateBubble\<close>, once for
  every bubble the engine moves, not once a frame. From the constructor's engine (interval
  3000 ms) and one frame of 1500 ms: with the two bubbles of \<open>twoBubbles\<close> the wind clock
  reaches 3000 within the frame and a new target is rolled; with the one bubble of
  \<open>oneBubble\<close> the clock stands at 1500 and the target is unchanged; with no bubble the
  clock does not move.
\<close>

theorem wind_target_rolled_per_bubble_update:
  "map_option (\<lambda>pe. (lastWindUpdate pe, targetWind pe))
     (fst (snd (manager_update 1500 (Some freshEngine) 1 twoBubbles host0))) = Some (0, (3 / 20, 0)) \<and>
   map_option (\<lambda>pe. (lastWindUpdate pe, targetWind pe))
     (fst (snd (manager_update 1500 (Some freshEngine) 1 oneBubble host0))) = Some (1500, (0, 0)) \<and>
   map_option (\<lambda>pe. (lastWindUpdate pe, targetWind pe))
     (fst (snd (manager_update 1500 (Some freshEngine) 1 (new_BubbleManager 25) host0))) = Some (0, (0, 0))"
proof (intro conjI)
  obtain b0 b1 where l: "bubbles twoBubbles = [b0, b1]" and s0: "settling 1500 b0" and s1: "settling 1500 b1"
    using twoBubbles_settling by blast
  obtain c1 pe1 h1 where u1: "bubble_update 1500 (Some freshEngine) 1 b1 host0 = (c1, pe1, h1)"
    by (cases "bubble_update 1500 (Some freshEngine) 1 b1 host0") auto
  have pe1: "pe1 = Some (fst (updateEnvironmentalForces freshEngine 1500 host0))"
    using bubble_update_engine[OF s1, of freshEngine 1 host0] u1 by simp
  have h1: "draws h1 = (\<lambda>n. 0)"
    using bubble_update_draws[of 1500 "Some freshEngine" 1 b1 host0] u1 host0_draws by simp
  let ?pe1 = "fst (updateEnvironmentalForces freshEngine 1500 host0)"
  have pe1_fields: "lastWindUpdate ?pe1 = 1500" "windUpdateInterval ?pe1 = 3000" "targetWind ?pe1 = (0, 0)"
    by (simp_all add: env_no_roll freshEngine_fields)
  obtain c0 pe2 h2 where u0: "bubble_update 1500 (Some ?pe1) 1 b0 h1 = (c0, pe2, h2)"
    by (cases "bubble_update 1500 (Some ?pe1) 1 b0 h1") auto
  have pe2: "pe2 = Some (fst (updateEnvironmentalForces ?pe1 1500 h1))"
    using bubble_update_engine[OF s0, of ?pe1 1 h1] u0 by simp
  have roll: "lastWindUpdate (fst (updateEnvironmentalForces ?pe1 1500 h1)) = 0"
    "targetWind (fst (updateEnvironmentalForces ?pe1 1500 h1)) = (3 / 20, 0)"
    using env_roll[of ?pe1 1500 h1] h1 by (simp_all add: pe1_fields)
  have last_step: "fst (snd (update_from (Suc 0) 1500 1 bm' (Some ?pe1) h1)) = pe2"
    if "bubbles bm' ! 0 = b0" "0 < length (bubbles bm')" for bm'
    using that u0 by (simp add: Let_def)
  have first_step: "update_from (Suc (Suc 0)) 1500 1 twoBubbles (Some freshEngine) host0 =
      update_from (Suc 0) 1500 1
        (if \<not> isAlive c1 then removeBubble (Suc 0) (twoBubbles\<lparr>bubbles := [b0, c1]\<rparr>)
         else twoBubbles\<lparr>bubbles := [b0, c1]\<rparr>) (Some ?pe1) h1"
    using u1 pe1 by (simp add: l Let_def)
  have "fst (snd (update_from (Suc (Suc 0)) 1500 1 twoBubbles (Some freshEngine) host0)) = pe2"
    unfolding first_step by (rule last_step) (simp_all add: removeBubble_def)
  then show "map_option (\<lambda>pe. (lastWindUpdate pe, targetWind pe))
     (fst (snd (manager_update 1500 (Some freshEngine) 1 twoBubbles host0))) = Some (0, (3 / 20, 0))"
    by (simp add: manager_update_def l numeral_2_eq_2 pe2 roll)
next
  obtain b0 where l: "bubbles oneBubble = [b0]" and s0: "settling 1500 b0"
    using oneBubble_settling by blast
  obtain c0 pe1 h1 where u0: "bubble_update 1500 (Some freshEngine) 1 b0 host0 = (c0, pe1, h1)"
    by (cases "bubble_update 1500 (Some freshEngine) 1 b0 host0") auto
  have pe1: "pe1 = Some (fst (updateEnvironmentalForces freshEngine 1500 host0))"
    using bubble_update_engine[OF s0, of freshEngine 1 host0] u0 by simp
  show "map_option (\<lambda>pe. (lastWindUpdate pe, targetWind pe))
     (fst (snd (manager_update 1500 (Some freshEngine) 1 oneBubble host0))) = Some (1500, (0, 0))"
    by (simp add: manager_update_def l u0 pe1 Let_def env_no_roll freshEngine_fields)
next
  show "map_option (\<lambda>pe. (lastWindUpdate pe, targetWind pe))
     (fst (snd (manager_update 1500 (Some freshEngine) 1 (new_BubbleManager 25) host0))) = Some (0, (0, 0))"
    by (simp add: manager_update_def new_BubbleManager_def freshEngine_fields)
qed

section \<open>Properties of the double rounding\<close>

lemma floor_log2_eq:
  assumes "2 powi e \<le> \<bar>v\<bar>" and "\<bar>v\<bar> < 2 powi (e + 1)"
  shows "\<lfloor>log 2 \<bar>v\<bar>\<rfloor> = e"
proof -
  have pos: "0 < \<bar>v\<bar>"
    using assms(1) by (smt (verit) zero_less_power_int)
  have a: "(2::real) powr real_of_int e = 2 powi e" "(2::real) powr real_of_int (e + 1) = 2 powi (e + 1)"
    by (rule powr_real_of_int'; simp)+
  have "real_of_int e \<le> log 2 \<bar>v\<bar>"
    using assms(1) pos a(1) by (simp add: le_log_iff)
  moreover have "log 2 \<bar>v\<bar> < real_of_int (e + 1)"
    using assms(2) pos a(2) by (simp add: log_less_iff)
  ultimately show ?thesis by linarith
qed

lemma double_eval:
  assumes "2 powi e \<le> \<bar>v\<bar>" and "\<bar>v\<bar> < 2 powi (e + 1)" and "- 1022 \<le> e"
  shows "double v = of_int (roundEven (v / 2 powi (e - 52))) * 2 powi (e - 52)"
proof -
  have "v \<noteq> 0" using assms(1) by (smt (verit) zero_less_power_int)
  then show ?thesis
    using assms(3) by (simp add: double_def floor_log2_eq[OF assms(1,2)] Let_def max_def)
qed

lemma roundEven_near: "\<bar>v - of_int m\<bar> < 1 / 2 \<Longrightarrow> roundEven v = m"
proof -
  assume a: "\<bar>v - of_int m\<bar> < 1 / 2"
  consider "of_int m \<le> v" | "v < of_int m" by linarith
  then show ?thesis
  proof cases
    case 1
    then have "\<lfloor>v\<rfloor> = m" using a by (intro floor_unique) linarith+
    then show ?thesis using a 1 by (simp add: roundEven_def Let_def)
  next
    case 2
    then have "\<lfloor>v\<rfloor> = m - 1" using a by (intro floor_unique; simp; linarith)
    then show ?thesis using a 2 by (simp add: roundEven_def Let_def)
  qed
qed

text \<open>
  The double nearest to \<open>v\<close>, from the binade of \<open>v\<close> and the integer significand within
  half a unit of the scaled value.
\<close>

lemma roundEven_tie:
  "v = of_int m + 1 / 2 \<Longrightarrow> roundEven v = (if even m then m else m + 1)"
proof -
  assume a: "v = of_int m + 1 / 2"
  then have "\<lfloor>v\<rfloor> = m" by (intro floor_unique) simp_all
  then show ?thesis using a by (simp add: roundEven_def Let_def)
qed

lemma double_val:
  assumes "2 powi e \<le> \<bar>v\<bar>" and "\<bar>v\<bar> < 2 powi (e + 1)" and "- 1022 \<le> e"
    and "\<bar>v / 2 powi (e - 52) - of_int m\<bar> < 1 / 2"
  shows "double v = of_int m * 2 powi (e - 52)"
  by (simp only: double_eval[OF assms(1-3)] roundEven_near[OF assms(4)])

lemma double_val_tie:
  assumes "2 powi e \<le> \<bar>v\<bar>" and "\<bar>v\<bar> < 2 powi (e + 1)" and "- 1022 \<le> e"
    and "v / 2 powi (e - 52) = of_int m + 1 / 2" and "even m"
  shows "double v = of_int m * 2 powi (e - 52)"
  by (simp only: double_eval[OF assms(1-3)] roundEven_tie[OF assms(4)] assms(5) if_True)

text \<open>Size 200, base count 8, quality 1: the product is \<^verbatim>\<open>10.666666666666666\<close>.\<close>

lemma product_200:
  "dmul (dmul 8 (max 0.5 (min 3.0 (ddiv 200 150)))) 1 = 6004799503160661 / 2 ^ 49"
proof -
  have a: "ddiv 200 150 = 6004799503160661 / 2 ^ 52"
    unfolding ddiv_def
    using double_val[where e=0 and m=6004799503160661 and v="200 / 150"] by simp
  have b: "dmul 8 (6004799503160661 / 2 ^ 52) = 6004799503160661 / 2 ^ 49"
    unfolding dmul_def
    using double_val[where e=3 and m=6004799503160661 and v="8 * (6004799503160661 / 2 ^ 52)"] by simp
  have c: "dmul (6004799503160661 / 2 ^ 49) 1 = 6004799503160661 / 2 ^ 49"
    unfolding dmul_def
    using double_val[where e=3 and m=6004799503160661 and v="6004799503160661 / 2 ^ 49 * 1"] by simp
  have "max 0.5 (min 3.0 (ddiv 200 150)) = 6004799503160661 / 2 ^ 52"
    by (simp add: a)
  then show ?thesis
    by (simp only: b c)
qed

text \<open>Size 300: every step is exact, the product is 16.\<close>

lemma product_300:
  "dmul (dmul 8 (max 0.5 (min 3.0 (ddiv 300 150)))) 1 = 16"
proof -
  have a: "ddiv 300 150 = 2"
    unfolding ddiv_def
    using double_val[where e=1 and m="2 ^ 52" and v="300 / 150"] by simp
  have b: "dmul 8 2 = 16"
    unfolding dmul_def
    using double_val[where e=4 and m="2 ^ 52" and v="8 * 2"] by simp
  have c: "dmul 16 1 = 16"
    unfolding dmul_def
    using double_val[where e=4 and m="2 ^ 52" and v="16 * 1"] by simp
  have "max 0.5 (min 3.0 (ddiv 300 150)) = (2::real)"
    by (simp add: a)
  then show ?thesis
    by (simp only: b c)
qed

text \<open>
  Performance mode (base count 6, quality \<^verbatim>\<open>0.7\<close>) and size \<^verbatim>\<open>178.57142857142858\<close>:
  the product is \<^verbatim>\<open>4.999999999999999\<close>, one unit in the last place below 5. The first
  product, \<^verbatim>\<open>6 * sizeRatio\<close>, falls halfway between two doubles and goes to the even one.
\<close>

lemma double_07: "double 0.7 = 6305039478318694 / 2 ^ 53"
  using double_val[where e="- 1" and m=6305039478318694 and v="0.7"] by simp

lemma double_178: "double 178.57142857142858 = 6282923587291429 / 2 ^ 45"
  using double_val[where e=7 and m=6282923587291429 and v="178.57142857142858"] by simp

lemma product_178:
  "dmul (dmul 6 (max 0.5 (min 3.0 (ddiv (double 178.57142857142858) 150)))) (double 0.7) =
     5629499534213119 / 2 ^ 50"
proof -
  have a: "ddiv (6282923587291429 / 2 ^ 45) 150 = 5361428127822019 / 2 ^ 52"
    unfolding ddiv_def
    using double_val[where e=0 and m=5361428127822019 and v="6282923587291429 / 2 ^ 45 / 150"] by simp
  have b: "dmul 6 (5361428127822019 / 2 ^ 52) = 8042142191733028 / 2 ^ 50"
    unfolding dmul_def
    using double_val_tie[where e=2 and m=8042142191733028 and v="6 * (5361428127822019 / 2 ^ 52)"] by simp
  have c: "dmul (8042142191733028 / 2 ^ 50) (6305039478318694 / 2 ^ 53) = 5629499534213119 / 2 ^ 50"
    unfolding dmul_def
    using double_val[where e=2 and m=5629499534213119
        and v="8042142191733028 / 2 ^ 50 * (6305039478318694 / 2 ^ 53)"] by simp
  have "max 0.5 (min 3.0 (ddiv (6282923587291429 / 2 ^ 45) 150)) = 5361428127822019 / 2 ^ 52"
    unfolding a by simp
  then show ?thesis
    by (simp only: double_178 double_07 b c)
qed

text \<open>
  Quality \<^verbatim>\<open>0.6\<close> (\<^verbatim>\<open>setQualityLevel(0.6)\<close>), base count 8 and size \<^verbatim>\<open>218.75\<close>: the
  product is \<^verbatim>\<open>6.999999999999999\<close>, and the count is 6.
\<close>

lemma double_06: "double 0.6 = 5404319552844595 / 2 ^ 53"
  using double_val[where e="- 1" and m=5404319552844595 and v="0.6"] by simp

lemma double_01: "double 0.1 = 7205759403792794 / 2 ^ 56"
  using double_val[where e="- 4" and m=7205759403792794 and v="0.1"] by simp

lemma product_218:
  "dmul (dmul 8 (max 0.5 (min 3.0 (ddiv 218.75 150)))) (double 0.6) = 7881299347898367 / 2 ^ 50"
proof -
  have a: "ddiv 218.75 150 = 6567749456581973 / 2 ^ 52"
    unfolding ddiv_def
    using double_val[where e=0 and m=6567749456581973 and v="218.75 / 150"] by simp
  have b: "dmul 8 (6567749456581973 / 2 ^ 52) = 6567749456581973 / 2 ^ 49"
    unfolding dmul_def
    using double_val[where e=3 and m=6567749456581973 and v="8 * (6567749456581973 / 2 ^ 52)"] by simp
  have c: "dmul (6567749456581973 / 2 ^ 49) (5404319552844595 / 2 ^ 53) = 7881299347898367 / 2 ^ 50"
    unfolding dmul_def
    using double_val[where e=2 and m=7881299347898367
        and v="6567749456581973 / 2 ^ 49 * (5404319552844595 / 2 ^ 53)"] by simp
  have "max 0.5 (min 3.0 (ddiv 218.75 150)) = 6567749456581973 / 2 ^ 52"
    unfolding a by simp
  then show ?thesis
    by (simp only: double_06 b c)
qed

lemma particleCount_quality_06:
  "particleCount (setQualityLevel (double 0.6) new_ParticleSystem) 218.75 = 6"
proof -
  have q: "qualityLevel (setQualityLevel (double 0.6) new_ParticleSystem) = double 0.6"
    unfolding setQualityLevel_def double_06 double_01 by simp
  have b: "baseParticleCount (config (setQualityLevel (double 0.6) new_ParticleSystem)) = 8"
    by (simp add: setQualityLevel_def new_ParticleSystem_def)
  show ?thesis
    unfolding particleCount_def Let_def q b product_218 by simp
qed

section \<open>Properties of the particle burst\<close>

lemma resetParticle_id: "pid (fst (resetParticle p h)) = pid p" "type_p (fst (resetParticle p h)) = Droplet"
  by (simp_all add: resetParticle_def split_def Let_def)

lemma createNewParticle_id: "pid (createNewParticle i) = i" "type_p (createNewParticle i) = Droplet"
  by (simp_all add: createNewParticle_def)

lemma createDropletParticle_effect:
  "\<exists>p. particles (fst (createDropletParticle cx cy sz i t ps h)) = particles ps @ [p] \<and>
       type_p p = Droplet \<and>
       pid p = (if particlePool ps = [] then allocatedParticles ps else pid (last (particlePool ps)))"
  "particlePool (fst (createDropletParticle cx cy sz i t ps h)) = butlast (particlePool ps)"
  "activeParticles (fst (createDropletParticle cx cy sz i t ps h)) = activeParticles ps + 1"
  "allocatedParticles (fst (createDropletParticle cx cy sz i t ps h)) =
     (if particlePool ps = [] then Suc (allocatedParticles ps) else allocatedParticles ps)"
  "maxParticles (fst (createDropletParticle cx cy sz i t ps h)) = maxParticles ps"
  "config (fst (createDropletParticle cx cy sz i t ps h)) = config ps"
  "qualityLevel (fst (createDropletParticle cx cy sz i t ps h)) = qualityLevel ps"
  by (simp_all add: createDropletParticle_def Let_def split_def resetParticle_id createNewParticle_id)


lemma butlast_pow_take: "(butlast ^^ k) xs = take (length xs - k) xs"
proof (induction k)
  case 0
  then show ?case by simp
next
  case (Suc k)
  then show ?case by (simp add: butlast_take)
qed

lemma dropletLoop_unroll:
  "dropletLoop (Suc k) i cx cy sz t ps h =
     dropletLoop k (Suc i) cx cy sz t (fst (createDropletParticle cx cy sz (real i) t ps h))
       (snd (createDropletParticle cx cy sz (real i) t ps h))"
  by (simp add: split_def Let_def)

lemma dropletLoop_particles:
  "\<exists>ds. particles (fst (dropletLoop k i cx cy sz t ps h)) = particles ps @ ds \<and> length ds = k \<and>
        list_all (\<lambda>p. type_p p = Droplet) ds"
proof (induction k arbitrary: i ps h)
  case 0
  then show ?case by simp
next
  case (Suc k)
  let ?ps1 = "fst (createDropletParticle cx cy sz (real i) t ps h)"
  let ?h1 = "snd (createDropletParticle cx cy sz (real i) t ps h)"
  from createDropletParticle_effect(1)[of cx cy sz "real i" t ps h]
  obtain p where p: "particles ?ps1 = particles ps @ [p]" "type_p p = Droplet"
    by (elim exE conjE)
  from Suc.IH[of "Suc i" ?ps1 ?h1]
  obtain ds where ds: "particles (fst (dropletLoop k (Suc i) cx cy sz t ?ps1 ?h1)) = particles ?ps1 @ ds"
      "length ds = k" "list_all (\<lambda>p. type_p p = Droplet) ds"
    by (elim exE conjE)
  show ?case
    unfolding dropletLoop_unroll using p ds by (intro exI[of _ "p # ds"]) simp
qed

lemma dropletLoop_pool:
  "particlePool (fst (dropletLoop k i cx cy sz t ps h)) = take (length (particlePool ps) - k) (particlePool ps)"
proof (induction k arbitrary: i ps h)
  case 0
  then show ?case by simp
next
  case (Suc k)
  show ?case
    unfolding dropletLoop_unroll Suc.IH
    by (simp add: createDropletParticle_effect butlast_conv_take)
qed

lemma dropletLoop_active:
  "activeParticles (fst (dropletLoop k i cx cy sz t ps h)) = activeParticles ps + int k"
proof (induction k arbitrary: i ps h)
  case 0
  then show ?case by simp
next
  case (Suc k)
  show ?case unfolding dropletLoop_unroll Suc.IH by (simp add: createDropletParticle_effect)
qed

lemma dropletLoop_allocated:
  "allocatedParticles (fst (dropletLoop k i cx cy sz t ps h)) =
     allocatedParticles ps + (k - length (particlePool ps))"
proof (induction k arbitrary: i ps h)
  case 0
  then show ?case by simp
next
  case (Suc k)
  show ?case unfolding dropletLoop_unroll Suc.IH
    by (cases "particlePool ps" rule: rev_cases) (simp_all add: createDropletParticle_effect)
qed

lemma dropletLoop_settings:
  "maxParticles (fst (dropletLoop k i cx cy sz t ps h)) = maxParticles ps"
  "config (fst (dropletLoop k i cx cy sz t ps h)) = config ps"
  "qualityLevel (fst (dropletLoop k i cx cy sz t ps h)) = qualityLevel ps"
proof (induction k arbitrary: i ps h)
  case 0
  {
    case 1 show ?case by simp
  next
    case 2 show ?case by simp
  next
    case 3 show ?case by simp
  }
next
  case (Suc k)
  {
    case 1 show ?case unfolding dropletLoop_unroll Suc.IH(1) by (simp add: createDropletParticle_effect)
  next
    case 2 show ?case unfolding dropletLoop_unroll Suc.IH(2) by (simp add: createDropletParticle_effect)
  next
    case 3 show ?case unfolding dropletLoop_unroll Suc.IH(3) by (simp add: createDropletParticle_effect)
  }
qed


lemma getPooledParticle_effect:
  "fst (getPooledParticle ps h) = None \<longleftrightarrow> particlePool ps = [] \<and> maxParticles ps \<le> activeParticles ps"
  "fst (getPooledParticle ps h) = None \<Longrightarrow> fst (snd (getPooledParticle ps h)) = ps"
  by (auto simp: getPooledParticle_def Let_def split_def)

lemma createBurstEffect_none:
  assumes "particlePool ps = []" "maxParticles ps \<le> activeParticles ps"
  shows "fst (createBurstEffect px py sz ps h) = ps"
  using assms by (simp add: createBurstEffect_def getPooledParticle_def)

lemma createBurstEffect_some:
  assumes "particlePool ps \<noteq> [] \<or> activeParticles ps < maxParticles ps"
  shows "\<exists>r. particles (fst (createBurstEffect px py sz ps h)) = particles ps @ [r] \<and>
       type_p r = Burst \<and>
       pid r = (if particlePool ps = [] then allocatedParticles ps else pid (last (particlePool ps)))"
    and "particlePool (fst (createBurstEffect px py sz ps h)) = butlast (particlePool ps)"
    and "activeParticles (fst (createBurstEffect px py sz ps h)) = activeParticles ps + 1"
    and "allocatedParticles (fst (createBurstEffect px py sz ps h)) =
           (if particlePool ps = [] then Suc (allocatedParticles ps) else allocatedParticles ps)"
  using assms
  by (auto simp: createBurstEffect_def getPooledParticle_def Let_def split_def resetParticle_id
      createNewParticle_id)

lemma createBurstEffect_settings:
  "maxParticles (fst (createBurstEffect px py sz ps h)) = maxParticles ps"
  "config (fst (createBurstEffect px py sz ps h)) = config ps"
  "qualityLevel (fst (createBurstEffect px py sz ps h)) = qualityLevel ps"
  by (auto simp: createBurstEffect_def getPooledParticle_def Let_def split_def)

lemma createPopEffect_unfold:
  "fst (createPopEffect px py sz ps h) =
     fst (createBurstEffect px py sz
            (fst (dropletLoop (nat (actualCount ps sz)) 0 px py sz (real_of_int (actualCount ps sz)) ps h))
            (snd (dropletLoop (nat (actualCount ps sz)) 0 px py sz (real_of_int (actualCount ps sz)) ps h)))"
  by (simp add: createPopEffect_def Let_def split_def)

lemma actualCount_eq:
  "actualCount ps sz =
     min \<lfloor>dmul (dmul (baseParticleCount (config ps)) (max 0.5 (min 3.0 (ddiv sz 150)))) (qualityLevel ps)\<rfloor>
         (maxParticles ps - activeParticles ps)"
  by (simp add: actualCount_def particleCount_def Let_def)

lemma createPopEffect_structure:
  fixes ps :: particle_system and bubbleSize px py :: real and h :: host
  defines "n \<equiv> nat (actualCount ps bubbleSize)"
  defines "ring \<equiv> (n < length (particlePool ps) \<or> activeParticles ps + int n < maxParticles ps)"
  defines "ps' \<equiv> fst (createPopEffect px py bubbleSize ps h)"
  shows "\<exists>ds rs. particles ps' = particles ps @ ds @ rs \<and>
                length ds = n \<and> list_all (\<lambda>p. type_p p = Droplet) ds \<and>
                length rs = (if ring then 1 else 0) \<and> list_all (\<lambda>p. type_p p = Burst) rs"
    and "activeParticles ps' = activeParticles ps + int n + (if ring then 1 else 0)"
    and "particlePool ps' = take (length (particlePool ps) - n - (if ring then 1 else 0)) (particlePool ps)"
    and "maxParticles ps' = maxParticles ps"
    and "config ps' = config ps"
    and "qualityLevel ps' = qualityLevel ps"
proof -
  define ps1 where "ps1 = fst (dropletLoop n 0 px py bubbleSize (real_of_int (actualCount ps bubbleSize)) ps h)"
  define h1 where "h1 = snd (dropletLoop n 0 px py bubbleSize (real_of_int (actualCount ps bubbleSize)) ps h)"
  have ps': "ps' = fst (createBurstEffect px py bubbleSize ps1 h1)"
    by (simp add: ps'_def createPopEffect_unfold ps1_def h1_def n_def)
  obtain ds where ds: "particles ps1 = particles ps @ ds" "length ds = n"
      "list_all (\<lambda>p. type_p p = Droplet) ds"
    using dropletLoop_particles[of n 0 px py bubbleSize "real_of_int (actualCount ps bubbleSize)" ps h]
    unfolding ps1_def by (elim exE conjE)
  have pool1: "particlePool ps1 = take (length (particlePool ps) - n) (particlePool ps)"
    by (simp add: ps1_def dropletLoop_pool)
  have act1: "activeParticles ps1 = activeParticles ps + int n"
    by (simp add: ps1_def dropletLoop_active)
  have max1: "maxParticles ps1 = maxParticles ps"
    by (simp add: ps1_def dropletLoop_settings)
  have ring1: "ring \<longleftrightarrow> (particlePool ps1 \<noteq> [] \<or> activeParticles ps1 < maxParticles ps1)"
    by (auto simp: ring_def pool1 act1 max1)
  have parts: "\<exists>rs. particles ps' = particles ps1 @ rs \<and> length rs = (if ring then 1 else 0) \<and>
       list_all (\<lambda>p. type_p p = Burst) rs \<and>
       activeParticles ps' = activeParticles ps1 + (if ring then 1 else 0) \<and>
       particlePool ps' = take (length (particlePool ps1) - (if ring then 1 else 0)) (particlePool ps1)"
  proof (cases ring)
    case True
    then have avail: "particlePool ps1 \<noteq> [] \<or> activeParticles ps1 < maxParticles ps1"
      using ring1 by simp
    from createBurstEffect_some(1)[OF avail, of px py bubbleSize h1]
    obtain r where "particles ps' = particles ps1 @ [r]" "type_p r = Burst"
      unfolding ps' by (elim exE conjE)
    then show ?thesis
      using True createBurstEffect_some(2,3)[OF avail, of px py bubbleSize h1]
      by (intro exI[of _ "[r]"]) (simp add: ps' butlast_conv_take)
  next
    case False
    then have "particlePool ps1 = []" "maxParticles ps1 \<le> activeParticles ps1"
      using ring1 by auto
    then have "ps' = ps1"
      unfolding ps' by (rule createBurstEffect_none)
    then show ?thesis using False by simp
  qed
  then obtain rs where rs: "particles ps' = particles ps1 @ rs" "length rs = (if ring then 1 else 0)"
       "list_all (\<lambda>p. type_p p = Burst) rs"
       "activeParticles ps' = activeParticles ps1 + (if ring then 1 else 0)"
       "particlePool ps' = take (length (particlePool ps1) - (if ring then 1 else 0)) (particlePool ps1)"
    by (elim exE conjE)
  show "\<exists>ds rs. particles ps' = particles ps @ ds @ rs \<and>
                length ds = n \<and> list_all (\<lambda>p. type_p p = Droplet) ds \<and>
                length rs = (if ring then 1 else 0) \<and> list_all (\<lambda>p. type_p p = Burst) rs"
    using ds rs by (intro exI[of _ ds] exI[of _ rs]) simp
  show "activeParticles ps' = activeParticles ps + int n + (if ring then 1 else 0)"
    using rs(4) act1 by simp
  show "particlePool ps' = take (length (particlePool ps) - n - (if ring then 1 else 0)) (particlePool ps)"
  proof -
    have "length (particlePool ps1) = length (particlePool ps) - n"
      by (simp add: pool1)
    then have "particlePool ps' =
        take (length (particlePool ps) - n - (if ring then 1 else 0)) (particlePool ps1)"
      using rs(5) by simp
    also have "\<dots> = take (length (particlePool ps) - n - (if ring then 1 else 0)) (particlePool ps)"
      unfolding pool1 take_take by (rule arg_cong[of _ _ "\<lambda>m. take m (particlePool ps)"]) simp
    finally show ?thesis .
  qed
  show "maxParticles ps' = maxParticles ps" "config ps' = config ps" "qualityLevel ps' = qualityLevel ps"
    by (simp_all add: ps' createBurstEffect_settings ps1_def dropletLoop_settings)
qed

lemma createPopEffect_counts:
  fixes ps :: particle_system and bubbleSize :: real
  defines "n \<equiv> nat (actualCount ps bubbleSize)"
  defines "ring \<equiv> (n < length (particlePool ps) \<or> activeParticles ps + int n < maxParticles ps)"
  shows "dropletCount (fst (createPopEffect px py bubbleSize ps h)) = dropletCount ps + n"
    and "burstCount (fst (createPopEffect px py bubbleSize ps h)) = burstCount ps + (if ring then 1 else 0)"
proof -
  from createPopEffect_structure(1)[where ps=ps and bubbleSize=bubbleSize and px=px and py=py and h=h]
  obtain ds rs where s: "particles (fst (createPopEffect px py bubbleSize ps h)) = particles ps @ ds @ rs"
     "length ds = n" "list_all (\<lambda>p. type_p p = Droplet) ds"
     "length rs = (if ring then 1 else 0)" "list_all (\<lambda>p. type_p p = Burst) rs"
    unfolding n_def ring_def by (elim exE conjE)
  have d1: "filter (\<lambda>p. type_p p = Droplet) ds = ds" using s(3) by (simp add: list_all_iff)
  have d2: "filter (\<lambda>p. type_p p = Droplet) rs = []" using s(5) by (auto simp: list_all_iff filter_empty_conv)
  have b1: "filter (\<lambda>p. type_p p = Burst) ds = []" using s(3) by (auto simp: list_all_iff filter_empty_conv)
  have b2: "filter (\<lambda>p. type_p p = Burst) rs = rs" using s(5) by (simp add: list_all_iff)
  show "dropletCount (fst (createPopEffect px py bubbleSize ps h)) = dropletCount ps + n"
    by (simp add: dropletCount_def s(1,2) d1 d2)
  show "burstCount (fst (createPopEffect px py bubbleSize ps h)) = burstCount ps + (if ring then 1 else 0)"
    by (simp add: burstCount_def s(1,4) b1 b2)
qed

text \<open>
  C2, amended. \<^verbatim>\<open>createPopEffect(x, y, size)\<close> appends
  \<open>max 0 (min (floor p) available)\<close> droplets, where \<open>p\<close> is the product
  \<^verbatim>\<open>baseCount * clamp(size / 150, 0.5, 3.0) * quality\<close> as double arithmetic gives it (the
  quotient and the two products each rounded to the nearest double) and
  \<open>available = maxParticles - activeParticles\<close>, and after them one burst
  ring when a particle can still be had (a pooled one is left, or the active count is
  below \<^verbatim>\<open>maxParticles\<close>), none otherwise. When the active and pooled particles together
  do not exceed \<^verbatim>\<open>maxParticles\<close>, droplets and ring together do not exceed \<open>available\<close>.
\<close>

theorem pop_effect_particle_counts:
  "(let n = nat (min \<lfloor>dmul (dmul (baseParticleCount (config ps)) (max 0.5 (min 3.0 (ddiv bubbleSize 150))))
                           (qualityLevel ps)\<rfloor>
                    (maxParticles ps - activeParticles ps));
        ring = (n < length (particlePool ps) \<or> activeParticles ps + int n < maxParticles ps);
        ps' = fst (createPopEffect px py bubbleSize ps h)
    in (\<exists>ds rs. particles ps' = particles ps @ ds @ rs \<and>
                length ds = n \<and> list_all (\<lambda>p. type_p p = Droplet) ds \<and>
                length rs = (if ring then 1 else 0) \<and> list_all (\<lambda>p. type_p p = Burst) rs) \<and>
       activeParticles ps' = activeParticles ps + int n + (if ring then 1 else 0) \<and>
       (activeParticles ps + int (length (particlePool ps)) \<le> maxParticles ps \<longrightarrow>
          int n + (if ring then 1 else 0) \<le> maxParticles ps - activeParticles ps))"
proof -
  define n where "n = nat (actualCount ps bubbleSize)"
  define ring where "ring = (n < length (particlePool ps) \<or> activeParticles ps + int n < maxParticles ps)"
  have c: "int n + (if ring then 1 else 0) \<le> maxParticles ps - activeParticles ps"
    if cap: "activeParticles ps + int (length (particlePool ps)) \<le> maxParticles ps"
  proof -
    have "0 \<le> maxParticles ps - activeParticles ps" using cap by linarith
    then have "int n \<le> maxParticles ps - activeParticles ps"
      by (simp add: n_def actualCount_eq)
    then show ?thesis using cap by (auto simp: ring_def)
  qed
  show ?thesis
    unfolding Let_def actualCount_eq[symmetric] n_def[symmetric]
    using createPopEffect_structure(1,2)[where ps=ps and bubbleSize=bubbleSize and px=px and py=py and h=h, folded n_def] c
    unfolding ring_def by blast
qed

lemma new_ParticleSystem_fields:
  "particles new_ParticleSystem = []" "particlePool new_ParticleSystem = []"
  "maxParticles new_ParticleSystem = 200" "activeParticles new_ParticleSystem = 0"
  "baseParticleCount (config new_ParticleSystem) = 8" "qualityLevel new_ParticleSystem = 1"
  "allocatedParticles new_ParticleSystem = 0"
  by (simp_all add: new_ParticleSystem_def)

lemma popTimes_300:
  "k \<le> 11 \<Longrightarrow>
     particlePool (fst (popTimes k 300 new_ParticleSystem host0)) = [] \<and>
     activeParticles (fst (popTimes k 300 new_ParticleSystem host0)) = 17 * int k \<and>
     dropletCount (fst (popTimes k 300 new_ParticleSystem host0)) = 16 * k \<and>
     burstCount (fst (popTimes k 300 new_ParticleSystem host0)) = k \<and>
     maxParticles (fst (popTimes k 300 new_ParticleSystem host0)) = 200 \<and>
     config (fst (popTimes k 300 new_ParticleSystem host0)) = config new_ParticleSystem \<and>
     qualityLevel (fst (popTimes k 300 new_ParticleSystem host0)) = 1"
proof (induction k)
  case 0
  then show ?case by (simp add: new_ParticleSystem_fields dropletCount_def burstCount_def)
next
  case (Suc k)
  let ?ps = "fst (popTimes k 300 new_ParticleSystem host0)"
  let ?h = "snd (popTimes k 300 new_ParticleSystem host0)"
  have unroll: "fst (popTimes (Suc k) 300 new_ParticleSystem host0) = fst (createPopEffect 500 400 300 ?ps ?h)"
    by (simp add: split_def Let_def)
  have IH: "particlePool ?ps = []" "activeParticles ?ps = 17 * int k" "dropletCount ?ps = 16 * k"
    "burstCount ?ps = k" "maxParticles ?ps = 200" "config ?ps = config new_ParticleSystem"
    "qualityLevel ?ps = 1"
    using Suc by simp_all
  have k: "int k \<le> 10" using Suc.prems by simp
  have "particleCount ?ps 300 = 16"
    unfolding particleCount_def Let_def IH new_ParticleSystem_fields product_300 by simp
  then have n: "actualCount ?ps 300 = 16"
    using k by (simp add: actualCount_def IH Let_def)
  show ?case
    unfolding unroll
    using k
    by (simp add: createPopEffect_structure createPopEffect_counts n IH)
qed

theorem pop_effect_particle_counts_witness:
  "activeParticles new_ParticleSystem + int (length (particlePool new_ParticleSystem))
     \<le> maxParticles new_ParticleSystem \<and>
   activeParticles (fst (createPopEffect 500 400 200 new_ParticleSystem host0)) = 11 \<and>
   int (nat (min \<lfloor>dmul (dmul (baseParticleCount (config new_ParticleSystem))
                               (max 0.5 (min 3.0 (ddiv 200 150))))
                         (qualityLevel new_ParticleSystem)\<rfloor>
                 (maxParticles new_ParticleSystem - activeParticles new_ParticleSystem))) + 1
     \<le> maxParticles new_ParticleSystem - activeParticles new_ParticleSystem"
proof -
  have cap: "activeParticles new_ParticleSystem + int (length (particlePool new_ParticleSystem))
     \<le> maxParticles new_ParticleSystem"
    by (simp add: new_ParticleSystem_fields)
  have n: "nat (min \<lfloor>dmul (dmul (baseParticleCount (config new_ParticleSystem))
                               (max 0.5 (min 3.0 (ddiv 200 150))))
                         (qualityLevel new_ParticleSystem)\<rfloor>
                 (maxParticles new_ParticleSystem - activeParticles new_ParticleSystem)) = 10"
    unfolding new_ParticleSystem_fields product_200 by simp
  from pop_effect_particle_counts[of new_ParticleSystem 200 500 400 host0]
  have "activeParticles (fst (createPopEffect 500 400 200 new_ParticleSystem host0)) = 11 \<and>
        (10::int) + 1 \<le> maxParticles new_ParticleSystem - activeParticles new_ParticleSystem"
    unfolding Let_def n using cap by (simp add: new_ParticleSystem_fields)
  then show ?thesis using cap n by simp
qed

text \<open>
  C2, as stated, fails. Popping a bubble of size 200 on a new particle system gives
  10 droplets (the floor of \<^verbatim>\<open>10.666666666666666\<close>) and one ring, where the claim's rounding
  gives 11. In performance mode a bubble of size \<^verbatim>\<open>178.57142857142858\<close> gives 4 droplets
  (the floor of \<^verbatim>\<open>4.999999999999999\<close>), where rounding gives 5.
  And after eleven pops of a bubble of size 300 there are 187 active particles; the
  twelfth pop adds 13 droplets, which fills the 200, and no burst ring.
\<close>

theorem pop_effect_floors_and_may_drop_ring:
  "dropletCount (fst (createPopEffect 500 400 200 new_ParticleSystem host0)) = 10 \<and>
   burstCount (fst (createPopEffect 500 400 200 new_ParticleSystem host0)) = 1 \<and>
   min (maxParticles new_ParticleSystem - activeParticles new_ParticleSystem)
       (round (dmul (dmul (baseParticleCount (config new_ParticleSystem))
                          (max 0.5 (min 3.0 (ddiv 200 150))))
                    (qualityLevel new_ParticleSystem))) = 11 \<and>
   dropletCount (fst (createPopEffect 500 400 (double 178.57142857142858)
                        (enablePerformanceMode True new_ParticleSystem) host0)) = 4 \<and>
   min (maxParticles (enablePerformanceMode True new_ParticleSystem) -
        activeParticles (enablePerformanceMode True new_ParticleSystem))
       (round (dmul (dmul (baseParticleCount (config (enablePerformanceMode True new_ParticleSystem)))
                          (max 0.5 (min 3.0 (ddiv (double 178.57142857142858) 150))))
                    (qualityLevel (enablePerformanceMode True new_ParticleSystem)))) = 5 \<and>
   activeParticles (fst (popTimes 11 300 new_ParticleSystem host0)) = 187 \<and>
   burstCount (fst (popTimes 11 300 new_ParticleSystem host0)) = 11 \<and>
   dropletCount (fst (popTimes 11 300 new_ParticleSystem host0)) = 176 \<and>
   dropletCount (fst (popTimes 12 300 new_ParticleSystem host0)) = 189 \<and>
   burstCount (fst (popTimes 12 300 new_ParticleSystem host0)) = 11"
proof -
  have "particleCount new_ParticleSystem 200 = 10"
    unfolding particleCount_def Let_def new_ParticleSystem_fields product_200 by simp
  then have n200: "actualCount new_ParticleSystem 200 = 10"
    by (simp add: actualCount_def Let_def new_ParticleSystem_fields)
  have none: "dropletCount new_ParticleSystem = 0" "burstCount new_ParticleSystem = 0"
    by (simp_all add: new_ParticleSystem_fields dropletCount_def burstCount_def)
  have first: "dropletCount (fst (createPopEffect 500 400 200 new_ParticleSystem host0)) = 10"
    "burstCount (fst (createPopEffect 500 400 200 new_ParticleSystem host0)) = 1"
    by (simp_all add: createPopEffect_counts n200 new_ParticleSystem_fields none)
  have spec: "min (maxParticles new_ParticleSystem - activeParticles new_ParticleSystem)
       (round (dmul (dmul (baseParticleCount (config new_ParticleSystem))
                          (max 0.5 (min 3.0 (ddiv 200 150))))
                    (qualityLevel new_ParticleSystem))) = 11"
    unfolding new_ParticleSystem_fields product_200 by (simp add: round_def)
  let ?pm = "enablePerformanceMode True new_ParticleSystem"
  have pm: "baseParticleCount (config ?pm) = 6" "qualityLevel ?pm = double 0.7"
    "maxParticles ?pm = 100" "activeParticles ?pm = 0" "dropletCount ?pm = 0"
    by (simp_all add: enablePerformanceMode_def new_ParticleSystem_def dropletCount_def)
  have "particleCount ?pm (double 178.57142857142858) = 4"
    unfolding particleCount_def Let_def pm product_178 by simp
  then have n178: "actualCount ?pm (double 178.57142857142858) = 4"
    by (simp add: actualCount_def Let_def pm)
  have perf: "dropletCount (fst (createPopEffect 500 400 (double 178.57142857142858) ?pm host0)) = 4"
    unfolding createPopEffect_counts n178 pm by simp
  have spec2: "min (maxParticles ?pm - activeParticles ?pm)
       (round (dmul (dmul (baseParticleCount (config ?pm))
                          (max 0.5 (min 3.0 (ddiv (double 178.57142857142858) 150))))
                    (qualityLevel ?pm))) = 5"
    unfolding pm product_178 by (simp add: round_def)
  let ?ps = "fst (popTimes 11 300 new_ParticleSystem host0)"
  let ?h = "snd (popTimes 11 300 new_ParticleSystem host0)"
  have e: "particlePool ?ps = []" "activeParticles ?ps = 187" "dropletCount ?ps = 176"
    "burstCount ?ps = 11" "maxParticles ?ps = 200" "config ?ps = config new_ParticleSystem"
    "qualityLevel ?ps = 1"
    using popTimes_300[of 11] by simp_all
  have unroll: "fst (popTimes 12 300 new_ParticleSystem host0) = fst (createPopEffect 500 400 300 ?ps ?h)"
  proof -
    have "(12::nat) = Suc 11" by simp
    then show ?thesis by (simp only: popTimes.simps split_def Let_def fst_conv)
  qed
  have "particleCount ?ps 300 = 16"
    unfolding particleCount_def Let_def e new_ParticleSystem_fields product_300 by simp
  then have n12: "actualCount ?ps 300 = 13"
    by (simp add: actualCount_def Let_def e)
  have last: "dropletCount (fst (popTimes 12 300 new_ParticleSystem host0)) = 189"
    "burstCount (fst (popTimes 12 300 new_ParticleSystem host0)) = 11"
    unfolding unroll by (simp_all add: createPopEffect_counts n12 e)
  show ?thesis using first spec perf spec2 e last by simp
qed

section \<open>Properties of the object pools\<close>

lemma physics_steps_bid:
  "bid (applyBuoyancy pe dt g b) = bid b"
  "bid (applyWobble pe dt g b) = bid b"
  "bid (applyBreeze pe h dt g b) = bid b"
  "bid (applyAirResistance pe dt b) = bid b"
  "bid (integratePosition dt b) = bid b"
  "bid (handleBoundaries pe b) = bid b"
  "bid (fst (applySizeEffects dt b h)) = bid b"
  by (simp_all add: applyBuoyancy_def applyWobble_def applyBreeze_def applyAirResistance_def
      integratePosition_def handleBoundaries_def applySizeEffects_def Let_def split_def)

lemma updateBubble_bid: "bid (fst (snd (updateBubble pe b dT h))) = bid b"
  by (simp add: updateBubble_def Let_def split_def physics_steps_bid)

lemma update_blocks_bid:
  "bid (fst (updatePosition dT pe sm b h)) = bid b"
  "bid (updateHue b) = bid b"
  "bid (updateThemeAnimations b) = bid b"
  "bid (fadeOut b) = bid b"
  "bid (checkBounds h b) = bid b"
  by (cases pe; simp add: updatePosition_def fallbackPhysics_def updateHue_def
      updateThemeAnimations_def fadeOut_def checkBounds_def Let_def split_def updateBubble_bid
      split: option.splits)+

lemma bubble_update_bid: "bid (fst (bubble_update dT pe sm b h)) = bid b"
  by (simp add: bubble_update_def Let_def split_def update_blocks_bid)

lemma pool_ok_mset:
  assumes "mset (act' @ free') = mset (act @ free)" and "pool_ok act free t"
  shows "pool_ok act' free' t"
proof -
  have len: "length (act' @ free') = length (act @ free)"
    using assms(1) by (rule mset_eq_length)
  have dis: "distinct (act' @ free') = distinct (act @ free)"
    using assms(1) by (rule mset_eq_imp_distinct_iff)
  have st: "set (act' @ free') = set (act @ free)"
    using assms(1) by (rule mset_eq_setD)
  have "list_all (\<lambda>i. i < t) (act' @ free')"
    using assms(2) st unfolding pool_ok_def list_all_iff by blast
  then show ?thesis
    using assms(2) len dis unfolding pool_ok_def by simp
qed

lemma pool_ok_acquire_free:
  assumes "free \<noteq> []" and "pool_ok act free t"
  shows "pool_ok (act @ [last free]) (butlast free) t"
proof (rule pool_ok_mset[OF _ assms(2)])
  have "free = butlast free @ [last free]" using assms(1) by simp
  then have "mset free = mset (butlast free) + {#last free#}"
    by (metis mset.simps(1) mset.simps(2) mset_append add.right_neutral add_mset_add_single)
  then show "mset ((act @ [last free]) @ butlast free) = mset (act @ free)" by simp
qed

lemma pool_ok_acquire_new:
  assumes "pool_ok act free t"
  shows "pool_ok (act @ [t]) free (Suc t)"
  using assms unfolding pool_ok_def list_all_iff by (auto simp: less_Suc_eq)

lemma pool_ok_release:
  assumes "i < length act" and "pool_ok act free t"
  shows "pool_ok (take i act @ drop (Suc i) act) (free @ [act ! i]) t"
proof (rule pool_ok_mset[OF _ assms(2)])
  have "act = take i act @ act ! i # drop (Suc i) act"
    using assms(1) by (rule id_take_nth_drop)
  then have "mset act = mset (take i act) + {#act ! i#} + mset (drop (Suc i) act)"
    by (metis mset.simps(2) mset_append add_mset_add_single union_assoc union_commute)
  then show "mset ((take i act @ drop (Suc i) act) @ free @ [act ! i]) = mset (act @ free)"
    by simp
qed

lemma pool_ok_release_all:
  assumes "pool_ok act free t"
  shows "pool_ok [] (free @ act) t"
  by (rule pool_ok_mset[OF _ assms]) simp


lemma resetBubble_bid: "bid (fst (resetBubble b px py sz lt th h)) = bid b"
  by (simp add: resetBubble_def Let_def split_def)

lemma new_Bubble_bid: "bid (fst (new_Bubble i px py sz lt th h)) = i"
  by (simp add: new_Bubble_def Let_def split_def)

lemma new_BubbleManager_inv: "bubble_pool_inv (new_BubbleManager m)"
  by (simp add: bubble_pool_inv_def new_BubbleManager_def pool_ok_def)

lemma createBubble_inv:
  assumes "bubble_pool_inv bm"
  shows "bubble_pool_inv (fst (snd (createBubble px py sz lt th bm h)))"
proof (cases "bubblePool bm = []")
  case True
  have "pool_ok (map bid (bubbles bm) @ [allocated bm]) (map bid (bubblePool bm)) (Suc (allocated bm))"
    using assms by (intro pool_ok_acquire_new) (simp add: bubble_pool_inv_def)
  then show ?thesis
    using True assms
    by (simp add: bubble_pool_inv_def createBubble_def Let_def split_def new_Bubble_bid)
next
  case False
  have "pool_ok (map bid (bubbles bm) @ [last (map bid (bubblePool bm))])
          (butlast (map bid (bubblePool bm))) (allocated bm)"
    using assms False by (intro pool_ok_acquire_free) (simp_all add: bubble_pool_inv_def)
  then show ?thesis
    using False assms
    by (simp add: bubble_pool_inv_def createBubble_def Let_def split_def resetBubble_bid
        last_map map_butlast)
qed

lemma removeBubble_inv:
  assumes "i < length (bubbles bm)" and "bubble_pool_inv bm"
  shows "bubble_pool_inv (removeBubble i bm)"
proof -
  have "pool_ok (take i (map bid (bubbles bm)) @ drop (Suc i) (map bid (bubbles bm)))
          (map bid (bubblePool bm) @ [map bid (bubbles bm) ! i]) (allocated bm)"
    using assms by (intro pool_ok_release) (simp_all add: bubble_pool_inv_def)
  then show ?thesis
    using assms by (simp add: bubble_pool_inv_def removeBubble_def take_map drop_map)
qed

lemma update_from_inv:
  "n \<le> length (bubbles bm) \<Longrightarrow> bubble_pool_inv bm \<Longrightarrow>
   bubble_pool_inv (fst (update_from n dT sm bm pe h))"
proof (induction n arbitrary: bm pe h)
  case 0
  then show ?case by simp
next
  case (Suc n)
  have nlt: "n < length (bubbles bm)" using Suc.prems(1) by simp
  obtain b' pe' h' where upd: "bubble_update dT pe sm (bubbles bm ! n) h = (b', pe', h')"
    by (cases "bubble_update dT pe sm (bubbles bm ! n) h") auto
  have bid': "bid b' = bid (bubbles bm ! n)"
    using bubble_update_bid[of dT pe sm "bubbles bm ! n" h] upd by simp
  let ?bm1 = "bm\<lparr>bubbles := (bubbles bm)[n := b']\<rparr>"
  have ids: "map bid (bubbles ?bm1) = map bid (bubbles bm)"
    using nlt bid' by (simp add: map_update list_update_same_conv)
  have inv1: "bubble_pool_inv ?bm1"
    using Suc.prems(2) ids by (simp add: bubble_pool_inv_def)
  have inv2: "bubble_pool_inv (removeBubble n ?bm1)"
    using nlt inv1 by (intro removeBubble_inv) simp_all
  have len1: "n \<le> length (bubbles ?bm1)" using nlt by simp
  have len2: "n \<le> length (bubbles (removeBubble n ?bm1))"
    using nlt by (simp add: removeBubble_def)
  show ?case
    using nlt upd Suc.IH[OF len1 inv1] Suc.IH[OF len2 inv2] by (simp add: Let_def)
qed

lemma manager_update_inv:
  "bubble_pool_inv bm \<Longrightarrow> bubble_pool_inv (fst (manager_update dT pe sm bm h))"
  unfolding manager_update_def by (rule update_from_inv) simp_all

lemma manager_render_inv:
  assumes "bubble_pool_inv bm"
  shows "bubble_pool_inv (manager_render bm)"
proof -
  have m: "mset (map bid (sort_key (\<lambda>b. - size_b b) (bubbles bm)) @ map bid (bubblePool bm)) =
           mset (map bid (bubbles bm) @ map bid (bubblePool bm))"
    by simp
  have "pool_ok (map bid (bubbles bm)) (map bid (bubblePool bm)) (allocated bm)"
    using assms by (simp add: bubble_pool_inv_def)
  from pool_ok_mset[OF m this] show ?thesis
    using assms by (simp add: bubble_pool_inv_def manager_render_def)
qed

lemma popBubble_inv:
  assumes "bubble_pool_inv bm"
  shows "bubble_pool_inv (popBubble b bm)"
proof -
  have "bid \<circ> (\<lambda>c::bubble. if bid c = bid b then c\<lparr>isAlive := False\<rparr> else c) = bid"
    by (rule ext) simp
  then show ?thesis
    using assms by (simp add: bubble_pool_inv_def popBubble_def)
qed

lemma new_ParticleSystem_inv: "particle_pool_inv new_ParticleSystem" "within_capacity new_ParticleSystem"
  by (simp_all add: particle_pool_inv_def within_capacity_def new_ParticleSystem_def pool_ok_def)

lemma createDropletParticle_inv:
  assumes "particle_pool_inv ps"
  shows "particle_pool_inv (fst (createDropletParticle cx cy sz i t ps h))"
proof -
  let ?ps' = "fst (createDropletParticle cx cy sz i t ps h)"
  obtain p where p: "particles ?ps' = particles ps @ [p]"
      "pid p = (if particlePool ps = [] then allocatedParticles ps else pid (last (particlePool ps)))"
    using createDropletParticle_effect(1)[of cx cy sz i t ps h] by (elim exE conjE)
  have ok: "pool_ok (map pid (particles ps)) (map pid (particlePool ps)) (allocatedParticles ps)"
    using assms by (simp add: particle_pool_inv_def)
  have "pool_ok (map pid (particles ?ps')) (map pid (particlePool ?ps')) (allocatedParticles ?ps')"
  proof (cases "particlePool ps = []")
    case True
    then show ?thesis
      using pool_ok_acquire_new[OF ok] p by (simp add: createDropletParticle_effect)
  next
    case False
    then show ?thesis
      using pool_ok_acquire_free[OF _ ok] p
      by (simp add: createDropletParticle_effect last_map map_butlast)
  qed
  then show ?thesis
    using assms p(1) by (simp add: particle_pool_inv_def createDropletParticle_effect)
qed

lemma createDropletParticle_capacity:
  assumes "particle_pool_inv ps" "within_capacity ps" "activeParticles ps < maxParticles ps"
  shows "within_capacity (fst (createDropletParticle cx cy sz i t ps h))"
  using assms
  by (auto simp: within_capacity_def particle_pool_inv_def pool_ok_def createDropletParticle_effect)

lemma dropletLoop_inv:
  "particle_pool_inv ps \<Longrightarrow> particle_pool_inv (fst (dropletLoop k i cx cy sz t ps h))"
proof (induction k arbitrary: i ps h)
  case 0
  then show ?case by simp
next
  case (Suc k)
  show ?case
    unfolding dropletLoop_unroll
    by (intro Suc.IH createDropletParticle_inv Suc.prems)
qed

lemma dropletLoop_capacity:
  "particle_pool_inv ps \<Longrightarrow> within_capacity ps \<Longrightarrow> activeParticles ps + int k \<le> maxParticles ps \<Longrightarrow>
   within_capacity (fst (dropletLoop k i cx cy sz t ps h))"
proof (induction k arbitrary: i ps h)
  case 0
  then show ?case by simp
next
  case (Suc k)
  let ?ps1 = "fst (createDropletParticle cx cy sz (real i) t ps h)"
  have lt: "activeParticles ps < maxParticles ps" using Suc.prems(3) by simp
  have a: "particle_pool_inv ?ps1" by (intro createDropletParticle_inv Suc.prems)
  have b: "within_capacity ?ps1" by (intro createDropletParticle_capacity Suc.prems lt)
  have c: "activeParticles ?ps1 + int k \<le> maxParticles ?ps1"
    using Suc.prems(3) by (simp add: createDropletParticle_effect)
  show ?case
    unfolding dropletLoop_unroll by (intro Suc.IH a b c)
qed

lemma createBurstEffect_inv:
  assumes "particle_pool_inv ps"
  shows "particle_pool_inv (fst (createBurstEffect px py sz ps h))"
proof (cases "particlePool ps \<noteq> [] \<or> activeParticles ps < maxParticles ps")
  case False
  then have "fst (createBurstEffect px py sz ps h) = ps"
    by (intro createBurstEffect_none) auto
  then show ?thesis using assms by simp
next
  case True
  let ?ps' = "fst (createBurstEffect px py sz ps h)"
  obtain r where r: "particles ?ps' = particles ps @ [r]"
      "pid r = (if particlePool ps = [] then allocatedParticles ps else pid (last (particlePool ps)))"
    using createBurstEffect_some(1)[OF True, of px py sz h] by (elim exE conjE)
  have ok: "pool_ok (map pid (particles ps)) (map pid (particlePool ps)) (allocatedParticles ps)"
    using assms by (simp add: particle_pool_inv_def)
  have "pool_ok (map pid (particles ?ps')) (map pid (particlePool ?ps')) (allocatedParticles ?ps')"
  proof (cases "particlePool ps = []")
    case True
    then show ?thesis
      using pool_ok_acquire_new[OF ok] r \<open>particlePool ps \<noteq> [] \<or> activeParticles ps < maxParticles ps\<close>
      by (simp add: createBurstEffect_some)
  next
    case False
    then show ?thesis
      using pool_ok_acquire_free[OF _ ok] r
      by (simp add: createBurstEffect_some last_map map_butlast)
  qed
  then show ?thesis
    using assms r(1) True by (simp add: particle_pool_inv_def createBurstEffect_some)
qed

lemma createBurstEffect_capacity:
  assumes "particle_pool_inv ps" "within_capacity ps"
  shows "within_capacity (fst (createBurstEffect px py sz ps h))"
proof (cases "particlePool ps \<noteq> [] \<or> activeParticles ps < maxParticles ps")
  case False
  then have "fst (createBurstEffect px py sz ps h) = ps"
    by (intro createBurstEffect_none) auto
  then show ?thesis using assms by simp
next
  case True
  then show ?thesis
    using assms
    by (auto simp: within_capacity_def particle_pool_inv_def pool_ok_def createBurstEffect_some
        createBurstEffect_settings)
qed

lemma createPopEffect_inv:
  assumes "particle_pool_inv ps"
  shows "particle_pool_inv (fst (createPopEffect px py sz ps h))"
  unfolding createPopEffect_unfold
  by (intro createBurstEffect_inv dropletLoop_inv assms)

lemma createPopEffect_capacity:
  assumes "particle_pool_inv ps" "within_capacity ps"
  shows "within_capacity (fst (createPopEffect px py sz ps h))"
proof -
  have "0 \<le> maxParticles ps - activeParticles ps"
    using assms by (simp add: within_capacity_def particle_pool_inv_def pool_ok_def)
  moreover have "actualCount ps sz \<le> maxParticles ps - activeParticles ps"
    by (simp add: actualCount_def Let_def)
  ultimately have "activeParticles ps + int (nat (actualCount ps sz)) \<le> maxParticles ps"
    by linarith
  then show ?thesis
    unfolding createPopEffect_unfold
    by (intro createBurstEffect_capacity dropletLoop_inv dropletLoop_capacity assms)
qed

lemma removeParticle_inv:
  assumes "particle_pool_inv ps"
  shows "particle_pool_inv (removeParticle i ps)"
proof (cases "i < length (particles ps)")
  case False
  then show ?thesis using assms by (simp add: removeParticle_def)
next
  case True
  have "pool_ok (take i (map pid (particles ps)) @ drop (Suc i) (map pid (particles ps)))
          (map pid (particlePool ps) @ [map pid (particles ps) ! i]) (allocatedParticles ps)"
    using assms True by (intro pool_ok_release) (simp_all add: particle_pool_inv_def)
  then show ?thesis
    using assms True by (simp add: particle_pool_inv_def removeParticle_def take_map drop_map)
qed

lemma removeParticle_settings:
  "allocatedParticles (removeParticle i ps) = allocatedParticles ps"
  "maxParticles (removeParticle i ps) = maxParticles ps"
  by (simp_all add: removeParticle_def)

lemma particle_steps_pid:
  "pid (updateBurstParticle dt p) = pid p"
  "pid (updateDropletParticle ps h dt p) = pid p"
  "pid (updateParticleOpacity ps p) = pid p"
  by (simp_all add: updateBurstParticle_def updateDropletParticle_def
      updateParticleOpacity_def Let_def)

lemma updateParticle_pid: "pid (updateParticle ps h dt p) = pid p"
  by (simp add: updateParticle_def Let_def particle_steps_pid)

lemma particles_from_inv:
  "particle_pool_inv ps \<Longrightarrow>
   particle_pool_inv (particles_from n dt h ps) \<and>
   allocatedParticles (particles_from n dt h ps) = allocatedParticles ps \<and>
   maxParticles (particles_from n dt h ps) = maxParticles ps"
proof (induction n arbitrary: ps)
  case 0
  then show ?case by simp
next
  case (Suc n)
  show ?case
  proof (cases "n < length (particles ps)")
    case False
    then show ?thesis using Suc.prems by simp
  next
    case True
    let ?p = "particles ps ! n"
    let ?p' = "updateParticle ps h dt ?p"
    let ?ps1 = "ps\<lparr>particles := (particles ps)[n := ?p']\<rparr>"
    have ids: "map pid (particles ?ps1) = map pid (particles ps)"
      using True by (simp add: map_update list_update_same_conv updateParticle_pid)
    have inv1: "particle_pool_inv ?ps1"
      using Suc.prems ids by (simp add: particle_pool_inv_def)
    have inv2: "particle_pool_inv (removeParticle n ?ps1)"
      by (intro removeParticle_inv inv1)
    have inv3: "particle_pool_inv (removeParticle n ps)"
      by (intro removeParticle_inv Suc.prems)
    show ?thesis
      using True Suc.IH[OF inv1] Suc.IH[OF inv2] Suc.IH[OF inv3]
      by (simp add: Let_def removeParticle_settings)
  qed
qed

lemma particleSystem_update_inv:
  assumes "particle_pool_inv ps"
  shows "particle_pool_inv (particleSystem_update dT h ps)"
    and "within_capacity ps \<Longrightarrow> within_capacity (particleSystem_update dT h ps)"
  using particles_from_inv[OF assms]
  by (simp_all add: particleSystem_update_def Let_def within_capacity_def)

lemma clearAll_inv:
  assumes "particle_pool_inv ps"
  shows "particle_pool_inv (clearAll ps)"
    and "within_capacity ps \<Longrightarrow> within_capacity (clearAll ps)"
proof -
  have "pool_ok [] (map pid (particlePool ps) @ map pid (particles ps)) (allocatedParticles ps)"
    using assms by (intro pool_ok_release_all) (simp add: particle_pool_inv_def)
  then show "particle_pool_inv (clearAll ps)"
    by (simp add: particle_pool_inv_def clearAll_def)
  show "within_capacity ps \<Longrightarrow> within_capacity (clearAll ps)"
    by (simp add: within_capacity_def clearAll_def)
qed

lemma enablePerformanceMode_inv:
  assumes "particle_pool_inv ps"
  shows "particle_pool_inv (enablePerformanceMode e ps)"
  using assms by (simp add: particle_pool_inv_def enablePerformanceMode_def)

lemma getPooledParticle_some:
  assumes "getPooledParticle ps h = (Some p, ps1, h1)"
  shows "pid p = (if particlePool ps = [] then allocatedParticles ps else pid (last (particlePool ps)))"
    and "particlePool ps1 = butlast (particlePool ps)"
    and "allocatedParticles ps1 =
           (if particlePool ps = [] then Suc (allocatedParticles ps) else allocatedParticles ps)"
    and "particles ps1 = particles ps" and "activeParticles ps1 = activeParticles ps"
    and "maxParticles ps1 = maxParticles ps"
    and "particlePool ps = [] \<Longrightarrow> activeParticles ps < maxParticles ps"
  using assms
  by (auto simp: getPooledParticle_def Let_def split_def resetParticle_id createNewParticle_id
      split: if_splits)

lemma getPooledParticle_none:
  assumes "getPooledParticle ps h = (None, ps1, h1)"
  shows "ps1 = ps"
  using assms by (auto simp: getPooledParticle_def Let_def split_def split: if_splits)

lemma push_acquired_inv:
  assumes inv: "particle_pool_inv ps" and cap: "within_capacity ps"
    and get: "getPooledParticle ps h = (Some p, ps1, h1)" and same: "pid q = pid p"
  shows "particle_pool_inv (ps1\<lparr>particles := particles ps1 @ [q],
                                 activeParticles := activeParticles ps1 + 1\<rparr>)"
    and "within_capacity (ps1\<lparr>particles := particles ps1 @ [q],
                                activeParticles := activeParticles ps1 + 1\<rparr>)"
proof -
  note g = getPooledParticle_some[OF get]
  have ok: "pool_ok (map pid (particles ps)) (map pid (particlePool ps)) (allocatedParticles ps)"
    using inv by (simp add: particle_pool_inv_def)
  have "pool_ok (map pid (particles ps) @ [pid q]) (map pid (particlePool ps1)) (allocatedParticles ps1)"
  proof (cases "particlePool ps = []")
    case True
    then show ?thesis
      using pool_ok_acquire_new[OF ok] g same by simp
  next
    case False
    then show ?thesis
      using pool_ok_acquire_free[OF _ ok] g same by (simp add: last_map map_butlast)
  qed
  then show "particle_pool_inv (ps1\<lparr>particles := particles ps1 @ [q],
                                 activeParticles := activeParticles ps1 + 1\<rparr>)"
    using inv g by (simp add: particle_pool_inv_def)
  show "within_capacity (ps1\<lparr>particles := particles ps1 @ [q],
                                activeParticles := activeParticles ps1 + 1\<rparr>)"
    using inv cap g by (auto simp: within_capacity_def particle_pool_inv_def pool_ok_def)
qed

lemma splashLoop_inv:
  "particle_pool_inv ps \<Longrightarrow> within_capacity ps \<Longrightarrow>
   particle_pool_inv (fst (splashLoop k i px py t ps h)) \<and>
   within_capacity (fst (splashLoop k i px py t ps h))"
proof (induction k arbitrary: i ps h)
  case 0
  then show ?case by simp
next
  case (Suc k)
  obtain r ps1 h1 where get: "getPooledParticle ps h = (r, ps1, h1)"
    by (cases "getPooledParticle ps h") auto
  show ?case
  proof (cases r)
    case None
    then have "ps1 = ps" using get getPooledParticle_none by blast
    then show ?thesis using None get Suc.prems by simp
  next
    case (Some p)
    define q where "q = p\<lparr>x_p := px, y_p := py,
        vx_p := cos ((pi * 2 * real i) / t) * (3 + fst (random h1) * 2),
        vy_p := sin ((pi * 2 * real i) / t) * (3 + fst (random h1) * 2) - 2,
        size_p := 1 + fst (random (snd (random h1))) * 2,
        lifetime_p := 800 + fst (random (snd (random (snd (random h1))))) * 400,
        color_p := fst (getDropletColor 30 (snd (random (snd (random (snd (random h1))))))),
        opacity_p := 0.6 + fst (random (snd (getDropletColor 30 (snd (random (snd (random (snd (random h1)))))))))
                     * 0.4\<rparr>"
    define h6 where "h6 = snd (random (snd (getDropletColor 30 (snd (random (snd (random (snd (random h1)))))))))"
    let ?ps2 = "ps1\<lparr>particles := particles ps1 @ [q], activeParticles := activeParticles ps1 + 1\<rparr>"
    have same: "pid q = pid p" by (simp add: q_def)
    have get': "getPooledParticle ps h = (Some p, ps1, h1)" using get Some by simp
    have step: "splashLoop (Suc k) i px py t ps h = splashLoop k (Suc i) px py t ?ps2 h6"
      using get' by (simp add: Let_def split_def q_def h6_def)
    show ?thesis
      unfolding step
      by (intro Suc.IH push_acquired_inv[OF Suc.prems get' same])
  qed
qed

lemma createSplashEffect_inv:
  assumes "particle_pool_inv ps" "within_capacity ps"
  shows "particle_pool_inv (fst (createSplashEffect px py intensity ps h))"
    and "within_capacity (fst (createSplashEffect px py intensity ps h))"
  using splashLoop_inv[OF assms] by (simp_all add: createSplashEffect_def Let_def)

lemma createBubble_activeCount:
  "activeCount (fst (snd (createBubble px py sz lt th bm h))) = activeCount bm + 1"
  "maxBubbles (fst (snd (createBubble px py sz lt th bm h))) = maxBubbles bm"
  by (simp_all add: createBubble_def Let_def split_def)

text \<open>
  C4, amended. For the bubble pool and the particle pool, the counter of active instances
  is the length of the active list, the active and the free list together hold exactly
  the instances allocated so far, and no instance is in both lists or twice in one: this
  holds for a new manager and is kept by every pool operation (for bubbles
  \<^verbatim>\<open>createBubble\<close>, \<^verbatim>\<open>update\<close>, \<^verbatim>\<open>render\<close>, \<^verbatim>\<open>popBubble\<close>; for particles
  \<^verbatim>\<open>createPopEffect\<close>, \<^verbatim>\<open>update\<close>, \<^verbatim>\<open>clearAll\<close>, \<^verbatim>\<open>enablePerformanceMode\<close>,
  \<^verbatim>\<open>createSplashEffect\<close>). The particle pool never allocates beyond \<^verbatim>\<open>maxParticles\<close>
  through \<^verbatim>\<open>createPopEffect\<close>, \<^verbatim>\<open>createSplashEffect\<close>, \<^verbatim>\<open>update\<close> and \<^verbatim>\<open>clearAll\<close>, so
  that the active count stays at or below it as long as \<^verbatim>\<open>maxParticles\<close> is not lowered.
  \<^verbatim>\<open>createBubble\<close> adds an active bubble whatever \<^verbatim>\<open>maxBubbles\<close> is.
\<close>

theorem pool_accounting_kept_by_operations:
  "bubble_pool_inv (new_BubbleManager m) \<and>
   particle_pool_inv new_ParticleSystem \<and> within_capacity new_ParticleSystem \<and>
   (bubble_pool_inv bm \<longrightarrow>
      bubble_pool_inv (fst (snd (createBubble px py sz lt th bm h))) \<and>
      bubble_pool_inv (fst (manager_update deltaTime pe sm bm h)) \<and>
      bubble_pool_inv (manager_render bm) \<and>
      bubble_pool_inv (popBubble b bm)) \<and>
   activeCount (fst (snd (createBubble px py sz lt th bm h))) = activeCount bm + 1 \<and>
   (particle_pool_inv ps \<longrightarrow>
      particle_pool_inv (fst (createPopEffect px py sz ps h)) \<and>
      particle_pool_inv (particleSystem_update deltaTime h ps) \<and>
      particle_pool_inv (clearAll ps) \<and>
      particle_pool_inv (enablePerformanceMode e ps)) \<and>
   (particle_pool_inv ps \<and> within_capacity ps \<longrightarrow>
      activeParticles ps \<le> maxParticles ps \<and>
      within_capacity (fst (createPopEffect px py sz ps h)) \<and>
      within_capacity (particleSystem_update deltaTime h ps) \<and>
      within_capacity (clearAll ps) \<and>
      particle_pool_inv (fst (createSplashEffect px py intensity ps h)) \<and>
      within_capacity (fst (createSplashEffect px py intensity ps h)))"
proof (intro conjI impI)
  show "bubble_pool_inv (new_BubbleManager m)" by (rule new_BubbleManager_inv)
  show "particle_pool_inv new_ParticleSystem" "within_capacity new_ParticleSystem"
    by (rule new_ParticleSystem_inv)+
  show "activeCount (fst (snd (createBubble px py sz lt th bm h))) = activeCount bm + 1"
    by (rule createBubble_activeCount)
next
  assume inv: "bubble_pool_inv bm"
  show "bubble_pool_inv (fst (snd (createBubble px py sz lt th bm h)))"
    using inv by (rule createBubble_inv)
  show "bubble_pool_inv (fst (manager_update deltaTime pe sm bm h))"
    using inv by (rule manager_update_inv)
  show "bubble_pool_inv (manager_render bm)" using inv by (rule manager_render_inv)
  show "bubble_pool_inv (popBubble b bm)" using inv by (rule popBubble_inv)
next
  assume inv: "particle_pool_inv ps"
  show "particle_pool_inv (fst (createPopEffect px py sz ps h))"
    using inv by (rule createPopEffect_inv)
  show "particle_pool_inv (particleSystem_update deltaTime h ps)"
    using inv by (rule particleSystem_update_inv)
  show "particle_pool_inv (clearAll ps)" using inv by (rule clearAll_inv)
  show "particle_pool_inv (enablePerformanceMode e ps)" using inv by (rule enablePerformanceMode_inv)
next
  assume both: "particle_pool_inv ps \<and> within_capacity ps"
  then have inv: "particle_pool_inv ps" and cap: "within_capacity ps" by simp_all
  show "activeParticles ps \<le> maxParticles ps"
    using inv cap by (simp add: particle_pool_inv_def within_capacity_def pool_ok_def)
  show "within_capacity (fst (createPopEffect px py sz ps h))"
    using inv cap by (rule createPopEffect_capacity)
  show "within_capacity (particleSystem_update deltaTime h ps)"
    using cap by (rule particleSystem_update_inv(2)[OF inv])
  show "within_capacity (clearAll ps)" using cap by (rule clearAll_inv(2)[OF inv])
  show "particle_pool_inv (fst (createSplashEffect px py intensity ps h))"
    using inv cap by (rule createSplashEffect_inv)
  show "within_capacity (fst (createSplashEffect px py intensity ps h))"
    using inv cap by (rule createSplashEffect_inv)
qed

theorem pool_accounting_kept_by_operations_witness:
  "bubble_pool_inv oneBubble \<and>
   bubble_pool_inv (fst (manager_update 16 None 1 oneBubble host0)) \<and>
   particle_pool_inv new_ParticleSystem \<and> within_capacity new_ParticleSystem \<and>
   particle_pool_inv (fst (createPopEffect 500 400 200 new_ParticleSystem host0)) \<and>
   within_capacity (fst (createPopEffect 500 400 200 new_ParticleSystem host0)) \<and>
   activeParticles (fst (createPopEffect 500 400 200 new_ParticleSystem host0))
     \<le> maxParticles (fst (createPopEffect 500 400 200 new_ParticleSystem host0))"
proof -
  note fresh = pool_accounting_kept_by_operations[of 25 "new_BubbleManager 25" 500 400 150 18000 None host0 16 None 1 agedBubble
      new_ParticleSystem True 1]
  have b0: "bubble_pool_inv (new_BubbleManager 25)" using fresh by blast
  have b1: "bubble_pool_inv oneBubble"
    unfolding oneBubble_def using fresh b0 by blast
  note one = pool_accounting_kept_by_operations[of 25 oneBubble 500 400 200 18000 None host0 16 None 1 agedBubble
      new_ParticleSystem True 1]
  have b2: "bubble_pool_inv (fst (manager_update 16 None 1 oneBubble host0))"
    using one b1 by blast
  have p0: "particle_pool_inv new_ParticleSystem" "within_capacity new_ParticleSystem"
    using one by blast+
  have p1: "particle_pool_inv (fst (createPopEffect 500 400 200 new_ParticleSystem host0))"
    "within_capacity (fst (createPopEffect 500 400 200 new_ParticleSystem host0))"
    using one p0 by blast+
  note popped = pool_accounting_kept_by_operations[of 25 oneBubble 500 400 200 18000 None host0 16 None 1 agedBubble
      "fst (createPopEffect 500 400 200 new_ParticleSystem host0)" True 1]
  have p2: "activeParticles (fst (createPopEffect 500 400 200 new_ParticleSystem host0))
     \<le> maxParticles (fst (createPopEffect 500 400 200 new_ParticleSystem host0))"
    using popped p1 by blast
  show ?thesis using b1 b2 p0 p1 p2 by blast
qed

text \<open>
  C4, as stated, fails for the maximum: six pops of a bubble of size 300 leave 102 active
  particles, and \<^verbatim>\<open>enablePerformanceMode(true)\<close> then sets \<^verbatim>\<open>maxParticles\<close> to 100; and a
  bubble manager constructed with maximum 1 holds two active bubbles after two
  \<^verbatim>\<open>createBubble\<close> calls.
\<close>

theorem active_count_can_exceed_maximum:
  "activeParticles (enablePerformanceMode True (fst (popTimes 6 300 new_ParticleSystem host0))) = 102 \<and>
   maxParticles (enablePerformanceMode True (fst (popTimes 6 300 new_ParticleSystem host0))) = 100 \<and>
   activeCount overfullManager = 2 \<and> maxBubbles overfullManager = 1"
proof -
  have "activeParticles (fst (popTimes 6 300 new_ParticleSystem host0)) = 102"
    using popTimes_300[of 6] by simp
  then have a: "activeParticles (enablePerformanceMode True (fst (popTimes 6 300 new_ParticleSystem host0))) = 102"
    "maxParticles (enablePerformanceMode True (fst (popTimes 6 300 new_ParticleSystem host0))) = 100"
    by (simp_all add: enablePerformanceMode_def)
  have b: "activeCount overfullManager = 2" "maxBubbles overfullManager = 1"
    by (simp_all add: overfullManager_def split_def createBubble_activeCount new_BubbleManager_def)
  show ?thesis using a b by simp
qed

section \<open>Properties of the audio triggers\<close>

lemma readyManager_eq:
  "readyManager = new_AudioManager\<lparr>audioContext := Some strictContext, bubblePopBuffers := allBuffers,
      isBufferLoaded := True, isInitialized := True\<rparr>"
  by (simp add: readyManager_def init_def strictContext_def Let_def)

lemma lenientManager_eq:
  "lenientManager = new_AudioManager\<lparr>audioContext := Some lenientContext, bubblePopBuffers := allBuffers,
      isBufferLoaded := True, isInitialized := True\<rparr>"
  by (simp add: lenientManager_def init_def lenientContext_def Let_def)

lemmas audio_defs = playPopSound_def refusesSound_def new_AudioManager_def
      allBuffers_def playAudioFile_def createPopSound_def synthesizePopSound_def createHarmonic_def
      createNode_def startNode_def stopNode_def paramAccepts_def jsmul_def random_def audioHost_def
      processQueuedSounds_def Let_def split_def

text \<open>
  One trigger on a freshly initialised manager with every theme buffer decoded.  The buffer
  source is started, then \<^verbatim>\<open>this.bubblePopBuffer.duration\<close> raises, and the handler calls
  \<^verbatim>\<open>createPopSound\<close>, whose frequency is \<^verbatim>\<open>NaN\<close>.
\<close>

lemma trigger_strict:
  "playPopSound 150 Classic readyManager audioHost =
     (readyManager\<lparr>audioContext := Some (strictContext\<lparr>nodes :=
        [\<lparr>kind = BufferSource, startedAt = Some 0, stopAt = None\<rparr>,
         \<lparr>kind = Gain, startedAt = None, stopAt = None\<rparr>,
         \<lparr>kind = Oscillator, startedAt = None, stopAt = None\<rparr>,
         \<lparr>kind = Gain, startedAt = None, stopAt = None\<rparr>,
         \<lparr>kind = BiquadFilter, startedAt = None, stopAt = None\<rparr>]\<rparr>)\<rparr>,
      audioHost\<lparr>drawn := 3\<rparr>)"
  by (simp add: audio_defs readyManager_eq strictContext_def)

lemma trigger_lenient:
  "playPopSound 150 Classic lenientManager audioHost =
     (lenientManager\<lparr>audioContext := Some (lenientContext\<lparr>nodes :=
        [\<lparr>kind = BufferSource, startedAt = Some 0, stopAt = None\<rparr>,
         \<lparr>kind = Gain, startedAt = None, stopAt = None\<rparr>,
         \<lparr>kind = Oscillator, startedAt = Some 0, stopAt = Some (3 / 25)\<rparr>,
         \<lparr>kind = Gain, startedAt = None, stopAt = None\<rparr>,
         \<lparr>kind = BiquadFilter, startedAt = None, stopAt = None\<rparr>,
         \<lparr>kind = Oscillator, startedAt = Some (1 / 200), stopAt = Some (3 / 25)\<rparr>,
         \<lparr>kind = Gain, startedAt = None, stopAt = None\<rparr>]\<rparr>),
       activeSounds := [\<lparr>sid = 1000 + 1 / 16, source = None, gainNode = 3, oscillator = Some 2,
                         filterNode = Some 4, harmonic = Some 5, startTime = 0, duration = 3 / 25\<rparr>],
       timeouts := [(220, 1000 + 1 / 16)]\<rparr>,
      audioHost\<lparr>drawn := 3\<rparr>)"
  by (simp add: audio_defs lenientManager_eq lenientContext_def)

lemma readyManager_admits:
  "\<not> refusesSound readyManager"
  "int (length (activeSounds readyManager)) < maxSimultaneousSounds readyManager"
  "isBufferLoaded readyManager" "bubblePopBuffers readyManager Classic \<noteq> None"
  by (simp_all add: readyManager_eq refusesSound_def new_AudioManager_def strictContext_def allBuffers_def)

text \<open>
  The synthesis fallback never touches the \<^verbatim>\<open>onended\<close> handlers nor the queue, and the
  sounds it builds carry no buffer source.
\<close>

lemma synthesizePopSound_keeps:
  "synthesizePopSound f d r i am = Inl (e, a) \<Longrightarrow>
     onended a = onended am \<and> soundQueue a = soundQueue am \<and> activeSounds a = activeSounds am \<and>
     timeouts a = timeouts am"
  "synthesizePopSound f d r i am = Inr (s, a) \<Longrightarrow>
     onended a = onended am \<and> soundQueue a = soundQueue am \<and> activeSounds a = activeSounds am \<and>
     timeouts a = timeouts am \<and> source s = None"
  by (cases "audioContext am"; auto simp: synthesizePopSound_def Let_def split_def split: if_splits)+

lemma createPopSound_keeps:
  "onended (fst (createPopSound sz am h)) = onended am"
  "soundQueue (fst (createPopSound sz am h)) = soundQueue am"
  unfolding createPopSound_def Let_def split_def
  by (auto split: sum.splits dest!: synthesizePopSound_keeps)

text \<open>
  \<^verbatim>\<open>bubblePopBuffer\<close> is assigned nowhere, so sample playback never reaches
  \<^verbatim>\<open>source.onended = ...\<close>.
\<close>

lemma playAudioFile_registers_no_onended:
  assumes "bubblePopBuffer am = None"
  shows "onended (fst (playAudioFile sz th am h)) = onended am"
  using assms
  by (cases "audioContext am") (simp_all add: playAudioFile_def createPopSound_keeps Let_def split_def)

lemma playAudioFile_keeps_queue: "soundQueue (fst (playAudioFile sz th a g)) = soundQueue a"
  by (cases "audioContext a"; cases "bubblePopBuffer a")
     (simp_all add: playAudioFile_def createPopSound_keeps Let_def split_def)

text \<open>At the limit, \<^verbatim>\<open>playPopSound\<close> queues the request with the current time and plays nothing.\<close>

lemma playPopSound_queues_when_full:
  assumes "\<not> refusesSound am" and "maxSimultaneousSounds am \<le> int (length (activeSounds am))"
  shows "playPopSound sz th am h =
           (am\<lparr>soundQueue := filter (\<lambda>s. dateNow h - timestamp s < 100) (soundQueue am) @
                   [\<lparr>q_bubbleSize = sz, q_theme = th, timestamp = dateNow h\<rparr>]\<rparr>, h)"
proof -
  let ?q = "\<lparr>q_bubbleSize = sz, q_theme = th, timestamp = dateNow h\<rparr>"
  have f: "filter (\<lambda>s. dateNow h - timestamp s < 100) (soundQueue am @ [?q]) =
           filter (\<lambda>s. dateNow h - timestamp s < 100) (soundQueue am) @ [?q]"
    by simp
  have "\<not> int (length (activeSounds am)) < maxSimultaneousSounds am"
    using assms(2) by simp
  then show ?thesis
    using assms
    by (simp add: playPopSound_def processQueuedSounds_def Let_def f split: list.splits)
qed

text \<open>
  \<^verbatim>\<open>processQueuedSounds\<close> filters the queue before it plays: what is left, and what is
  played, is younger than 100 ms.
\<close>

lemma processQueuedSounds_queue:
  "soundQueue (fst (processQueuedSounds am h)) =
     (if int (length (activeSounds am)) < maxSimultaneousSounds am
      then tl (filter (\<lambda>s. dateNow h - timestamp s < 100) (soundQueue am))
      else filter (\<lambda>s. dateNow h - timestamp s < 100) (soundQueue am))"
proof (cases "filter (\<lambda>s. dateNow h - timestamp s < 100) (soundQueue am)")
  case Nil
  then show ?thesis by (simp add: processQueuedSounds_def Let_def)
next
  case (Cons q rest)
  show ?thesis
  proof (cases "int (length (activeSounds am)) < maxSimultaneousSounds am")
    case False
    then show ?thesis using Cons by (simp add: processQueuedSounds_def Let_def)
  next
    case True
    have "fst (processQueuedSounds am h) =
        fst (if isBufferLoaded am \<and> bubblePopBuffers am (q_theme q) \<noteq> None
             then playAudioFile (q_bubbleSize q) (q_theme q) (am\<lparr>soundQueue := rest\<rparr>) h
             else createPopSound (q_bubbleSize q) (am\<lparr>soundQueue := rest\<rparr>) h)"
      using True Cons by (simp add: processQueuedSounds_def Let_def)
    then show ?thesis
      using True Cons by (simp add: playAudioFile_keeps_queue createPopSound_keeps)
  qed
qed

lemma set_tl_filter: "set (tl (filter P xs)) \<subseteq> {s \<in> set xs. P s}"
proof -
  have "set (tl ys) \<subseteq> set ys" for ys :: "'a list"
    by (cases ys) auto
  from this [of "filter P xs"] show ?thesis by auto
qed

lemma processQueuedSounds_drops_stale:
  "set (soundQueue (fst (processQueuedSounds am h))) \<subseteq>
     {s \<in> set (soundQueue am). dateNow h - timestamp s < 100}"
proof (cases "int (length (activeSounds am)) < maxSimultaneousSounds am")
  case True
  then have "soundQueue (fst (processQueuedSounds am h)) =
      tl (filter (\<lambda>s. dateNow h - timestamp s < 100) (soundQueue am))"
    by (simp only: processQueuedSounds_queue if_True)
  then show ?thesis
    by (simp only: set_tl_filter)
next
  case False
  then have "soundQueue (fst (processQueuedSounds am h)) =
      filter (\<lambda>s. dateNow h - timestamp s < 100) (soundQueue am)"
    by (simp only: processQueuedSounds_queue if_False)
  then show ?thesis
    by (simp only: set_filter subset_refl)
qed

lemma processQueuedSounds_all_stale:
  assumes "list_all (\<lambda>s. 100 \<le> dateNow h - timestamp s) (soundQueue am)"
  shows "processQueuedSounds am h = (am\<lparr>soundQueue := []\<rparr>, h)"
proof -
  have "filter (\<lambda>s. dateNow h - timestamp s < 100) (soundQueue am) = []"
    using assms by (auto simp: list_all_iff filter_empty_conv)
  then show ?thesis by (simp add: processQueuedSounds_def Let_def)
qed

text \<open>
  Claim C1.  A pop-sound request admitted under the concurrency limit, with the theme buffer
  decoded, goes to sample playback.  The manager is enabled, unmuted, initialised, has no active
  sound and holds the buffer of the theme; the request is \<^verbatim>\<open>playPopSound(150, 'classic')\<close>.
  Sample playback starts the buffer source and then raises at
  \<^verbatim>\<open>this.bubblePopBuffer.duration\<close>: no entry is pushed and no \<^verbatim>\<open>onended\<close> handler is
  set.  The handler falls back to synthesis, whose frequency is \<^verbatim>\<open>NaN\<close>.  In a context
  that rejects a non-finite parameter value the fallback raises as well: the active-sound list
  stays empty and no completion callback of either kind exists, while the buffer source plays.
  In a context that accepts the value the request plays twice, once by each strategy, and the
  only completion callback is the timer of the synthesised sound, whose entry has no source.
\<close>

theorem sample_playback_emits_no_completion_callback:
  "\<not> refusesSound readyManager \<and>
   int (length (activeSounds readyManager)) < maxSimultaneousSounds readyManager \<and>
   isBufferLoaded readyManager \<and> bubblePopBuffers readyManager Classic \<noteq> None \<and>
   nodeLog (fst (playPopSound 150 Classic readyManager audioHost)) =
     [(BufferSource, Some 0, None), (Gain, None, None), (Oscillator, None, None),
      (Gain, None, None), (BiquadFilter, None, None)] \<and>
   activeSounds (fst (playPopSound 150 Classic readyManager audioHost)) = [] \<and>
   onended (fst (playPopSound 150 Classic readyManager audioHost)) = [] \<and>
   timeouts (fst (playPopSound 150 Classic readyManager audioHost)) = [] \<and>
   nodeLog (fst (playPopSound 150 Classic lenientManager audioHost)) =
     [(BufferSource, Some 0, None), (Gain, None, None), (Oscillator, Some 0, Some (3 / 25)),
      (Gain, None, None), (BiquadFilter, None, None),
      (Oscillator, Some (1 / 200), Some (3 / 25)), (Gain, None, None)] \<and>
   map source (activeSounds (fst (playPopSound 150 Classic lenientManager audioHost))) = [None] \<and>
   onended (fst (playPopSound 150 Classic lenientManager audioHost)) = [] \<and>
   timeouts (fst (playPopSound 150 Classic lenientManager audioHost)) = [(220, 1000 + 1 / 16)]"
  by (simp add: readyManager_admits trigger_strict trigger_lenient nodeLog_def)
     (simp add: readyManager_eq lenientManager_eq new_AudioManager_def strictContext_def lenientContext_def)

text \<open>
  Claim C6.  With the limit at 2 (\<^verbatim>\<open>enablePerformanceMode(true)\<close>) and three triggers at the
  same instant: in a context that rejects a non-finite parameter value no sound is ever entered
  in the active-sound list, so the limit is never reached; all three buffer sources are started
  and nothing is queued.  In a context that accepts the value two sounds are tracked and the
  third request is queued with the time of the trigger.
\<close>

theorem three_triggers_at_limit_two:
  "maxSimultaneousSounds (audio_enablePerformanceMode True readyManager) = 2 \<and>
   \<not> refusesSound (audio_enablePerformanceMode True readyManager) \<and>
   activeSounds (threeTriggers (audio_enablePerformanceMode True readyManager)) = [] \<and>
   soundQueue (threeTriggers (audio_enablePerformanceMode True readyManager)) = [] \<and>
   startedSources (threeTriggers (audio_enablePerformanceMode True readyManager)) = 3 \<and>
   length (activeSounds (threeTriggers (audio_enablePerformanceMode True lenientManager))) = 2 \<and>
   soundQueue (threeTriggers (audio_enablePerformanceMode True lenientManager)) =
     [\<lparr>q_bubbleSize = 150, q_theme = Classic, timestamp = 1000\<rparr>] \<and>
   startedSources (threeTriggers (audio_enablePerformanceMode True lenientManager)) = 2"
  by (simp add: threeTriggers_def audio_enablePerformanceMode_def startedSources_def nodeLog_def
      audio_defs readyManager_eq lenientManager_eq strictContext_def lenientContext_def)

text \<open>
  Claim C7.  \<^verbatim>\<open>toggleMute()\<close> on a manager that has just played one pop sound.  The manager
  is muted and both lists are empty afterwards, but the buffer source started by sample playback
  is not stopped: it is in no entry of the active-sound list, and \<^verbatim>\<open>stopAllSounds\<close> stops
  only the \<^verbatim>\<open>oscillator\<close> and the \<^verbatim>\<open>harmonic\<close> of an entry.  Where the synthesised
  sound exists, its two oscillators are stopped at once.
\<close>

theorem mute_leaves_buffer_source_playing:
  "isMuted (snd (toggleMute (fst (playPopSound 150 Classic readyManager audioHost)))) \<and>
   activeSounds (snd (toggleMute (fst (playPopSound 150 Classic readyManager audioHost)))) = [] \<and>
   soundQueue (snd (toggleMute (fst (playPopSound 150 Classic readyManager audioHost)))) = [] \<and>
   nodeLog (snd (toggleMute (fst (playPopSound 150 Classic readyManager audioHost)))) =
     [(BufferSource, Some 0, None), (Gain, None, None), (Oscillator, None, None),
      (Gain, None, None), (BiquadFilter, None, None)] \<and>
   isMuted (snd (toggleMute (fst (playPopSound 150 Classic lenientManager audioHost)))) \<and>
   activeSounds (snd (toggleMute (fst (playPopSound 150 Classic lenientManager audioHost)))) = [] \<and>
   nodeLog (snd (toggleMute (fst (playPopSound 150 Classic lenientManager audioHost)))) =
     [(BufferSource, Some 0, None), (Gain, None, None), (Oscillator, Some 0, Some 0),
      (Gain, None, None), (BiquadFilter, None, None),
      (Oscillator, Some (1 / 200), Some 0), (Gain, None, None)]"
  by (simp add: trigger_strict trigger_lenient nodeLog_def toggleMute_def stopAllSounds_def
      stopSound_def stopNode_def Let_def)
     (simp add: readyManager_eq lenientManager_eq new_AudioManager_def strictContext_def lenientContext_def)

end
